theory Spec2Isabelle
  imports Complex_Main "HOL-Library.Word"
begin

section \<open>The 3D viewport of EmptyEpsilon (src/screenComponents/viewport3d.cpp)\<close>

text \<open>
  The development embeds \<^verbatim>\<open>GuiViewport3D::onDraw\<close> and
  \<^verbatim>\<open>GuiViewport3D::worldToScreen\<close>. The C++ \<^verbatim>\<open>float\<close> is read as an ideal
  real number: rounding is not modelled. The one place where an IEEE operation leaves the
  reals, the division by a zero \<^verbatim>\<open>w\<close> in the perspective division, is modelled
  explicitly (the quotient is \<open>None\<close>: infinite or not a number).
\<close>

subsection \<open>Vectors (glm::vec2, glm::vec3, glm::vec4)\<close>

datatype vec2 = Vec2 (v2x: real) (v2y: real)
datatype vec3 = Vec3 (v3x: real) (v3y: real) (v3z: real)
datatype vec4 = Vec4 (v4x: real) (v4y: real) (v4z: real) (v4w: real)

definition add2 :: "vec2 \<Rightarrow> vec2 \<Rightarrow> vec2" where
  "add2 a b = Vec2 (v2x a + v2x b) (v2y a + v2y b)"

definition sub2 :: "vec2 \<Rightarrow> vec2 \<Rightarrow> vec2" where
  "sub2 a b = Vec2 (v2x a - v2x b) (v2y a - v2y b)"

definition add3 :: "vec3 \<Rightarrow> vec3 \<Rightarrow> vec3" where
  "add3 a b = Vec3 (v3x a + v3x b) (v3y a + v3y b) (v3z a + v3z b)"

definition sub3 :: "vec3 \<Rightarrow> vec3 \<Rightarrow> vec3" where
  "sub3 a b = Vec3 (v3x a - v3x b) (v3y a - v3y b) (v3z a - v3z b)"

definition neg3 :: "vec3 \<Rightarrow> vec3" where
  "neg3 a = Vec3 (- v3x a) (- v3y a) (- v3z a)"

text \<open>\<^verbatim>\<open>glm::length2\<close>: the squared Euclidean length.\<close>

definition length2 :: "vec3 \<Rightarrow> real" where
  "length2 v = v3x v * v3x v + v3y v * v3y v + v3z v * v3z v"

subsection \<open>The space-dust field (onDraw, lines 288-338)\<close>

definition maxDustDist :: real where
  "maxDustDist = 500"

definition minDustDist :: real where
  "minDustDist = 100"

text \<open>
  The test of line 306 on one particle: its squared distance from the dust centre is above
  \<open>maxDustDist\<^sup>2\<close> or below \<open>minDustDist\<^sup>2\<close>.
\<close>

definition out_of_shell :: "vec3 \<Rightarrow> vec3 \<Rightarrow> bool" where
  "out_of_shell center p =
     (let delta = sub3 p center
      in length2 delta > maxDustDist * maxDustDist \<or> length2 delta < minDustDist * minDustDist)"

text \<open>
  The state the update loop works on: the static array \<^verbatim>\<open>space_dust\<close>, the flag
  \<^verbatim>\<open>update_required\<close>, and the number of calls of \<^verbatim>\<open>random\<close> made so far.
  \<^verbatim>\<open>random(-maxDustDist, maxDustDist)\<close> is not part of this file; the generator is
  a parameter \<open>rnd\<close>, and \<open>rnd k\<close> is what its call number \<open>k\<close> returns. The three
  draws of line 309 are taken in the order x, y, z.
\<close>

record dust_state =
  space_dust :: "vec3 list"
  update_required :: bool
  random_calls :: nat

text \<open>
  The body of the loop at index \<open>n\<close> (lines 305-311). The array holds
  \<^verbatim>\<open>2 * spacedust_particle_count\<close> entries, so \<open>n + 1\<close> is an index of the array
  whenever the even \<open>n\<close> is.
\<close>

definition dust_step :: "(nat \<Rightarrow> real) \<Rightarrow> vec3 \<Rightarrow> nat \<Rightarrow> dust_state \<Rightarrow> dust_state" where
  "dust_step rnd center n s =
     (if out_of_shell center (space_dust s ! n)
      then
        (let k = random_calls s;
             p = add3 center (Vec3 (rnd k) (rnd (k + 1)) (rnd (k + 2)))
         in s\<lparr>space_dust := (space_dust s)[n := p, n + 1 := p],
              update_required := True,
              random_calls := k + 3\<rparr>)
      else s)"

lemma length_dust_step [simp]:
  "length (space_dust (dust_step rnd c n s)) = length (space_dust s)"
  by (simp add: dust_step_def Let_def)

text \<open>\<^verbatim>\<open>for (auto n = 0U; n < space_dust.size(); n += 2)\<close>\<close>

function dust_loop :: "(nat \<Rightarrow> real) \<Rightarrow> vec3 \<Rightarrow> nat \<Rightarrow> dust_state \<Rightarrow> dust_state" where
  "dust_loop rnd center n s =
     (if n < length (space_dust s)
      then dust_loop rnd center (n + 2) (dust_step rnd center n s)
      else s)"
  by pat_completeness auto
termination
  by (relation "measure (\<lambda>(rnd, c, n, s). length (space_dust s) - n)") auto

declare dust_loop.simps [simp del]

subsection \<open>Matrices (glm::mat4) and the glm operations the viewport calls\<close>

text \<open>
  A \<^verbatim>\<open>glm::mat4\<close> is stored by columns: \<open>col0 m\<close> is \<^verbatim>\<open>m[0]\<close>. The functions below
  follow the bodies of the glm library (\<^verbatim>\<open>ext/matrix_transform.inl\<close>,
  \<^verbatim>\<open>ext/matrix_clip_space.inl\<close>, right-handed, depth range -1 to 1), which the
  viewport includes and calls.
\<close>

datatype mat4 = Mat4 (col0: vec4) (col1: vec4) (col2: vec4) (col3: vec4)

definition add4 :: "vec4 \<Rightarrow> vec4 \<Rightarrow> vec4" where
  "add4 a b = Vec4 (v4x a + v4x b) (v4y a + v4y b) (v4z a + v4z b) (v4w a + v4w b)"

definition scale4 :: "vec4 \<Rightarrow> real \<Rightarrow> vec4" where
  "scale4 a k = Vec4 (v4x a * k) (v4y a * k) (v4z a * k) (v4w a * k)"

text \<open>\<^verbatim>\<open>m * v\<close>: the combination of the columns of \<open>m\<close> with the components of \<open>v\<close>.\<close>

definition mat_vec :: "mat4 \<Rightarrow> vec4 \<Rightarrow> vec4" where
  "mat_vec m v =
     add4 (add4 (add4 (scale4 (col0 m) (v4x v)) (scale4 (col1 m) (v4y v)))
                (scale4 (col2 m) (v4z v)))
          (scale4 (col3 m) (v4w v))"

definition identity4 :: mat4 where
  "identity4 = Mat4 (Vec4 1 0 0 0) (Vec4 0 1 0 0) (Vec4 0 0 1 0) (Vec4 0 0 0 1)"

definition glm_radians :: "real \<Rightarrow> real" where
  "glm_radians degrees = degrees * pi / 180"

text \<open>\<^verbatim>\<open>glm::translate(m, v)\<close>: only the last column changes.\<close>

definition glm_translate :: "mat4 \<Rightarrow> vec3 \<Rightarrow> mat4" where
  "glm_translate m v =
     Mat4 (col0 m) (col1 m) (col2 m)
       (add4 (add4 (add4 (scale4 (col0 m) (v3x v)) (scale4 (col1 m) (v3y v)))
                   (scale4 (col2 m) (v3z v)))
             (col3 m))"

definition glm_scale :: "mat4 \<Rightarrow> vec3 \<Rightarrow> mat4" where
  "glm_scale m v =
     Mat4 (scale4 (col0 m) (v3x v)) (scale4 (col1 m) (v3y v)) (scale4 (col2 m) (v3z v)) (col3 m)"

definition glm_normalize :: "vec3 \<Rightarrow> vec3" where
  "glm_normalize v =
     (let l = sqrt (length2 v) in Vec3 (v3x v / l) (v3y v / l) (v3z v / l))"

text \<open>\<^verbatim>\<open>glm::rotate(m, angle, v)\<close>, the angle in radians.\<close>

definition glm_rotate :: "mat4 \<Rightarrow> real \<Rightarrow> vec3 \<Rightarrow> mat4" where
  "glm_rotate m angle v =
     (let c = cos angle; s = sin angle;
          axis = glm_normalize v;
          temp = Vec3 ((1 - c) * v3x axis) ((1 - c) * v3y axis) ((1 - c) * v3z axis);
          r00 = c + v3x temp * v3x axis;
          r01 = v3x temp * v3y axis + s * v3z axis;
          r02 = v3x temp * v3z axis - s * v3y axis;
          r10 = v3y temp * v3x axis - s * v3z axis;
          r11 = c + v3y temp * v3y axis;
          r12 = v3y temp * v3z axis + s * v3x axis;
          r20 = v3z temp * v3x axis + s * v3y axis;
          r21 = v3z temp * v3y axis - s * v3x axis;
          r22 = c + v3z temp * v3z axis
      in Mat4
          (add4 (add4 (scale4 (col0 m) r00) (scale4 (col1 m) r01)) (scale4 (col2 m) r02))
          (add4 (add4 (scale4 (col0 m) r10) (scale4 (col1 m) r11)) (scale4 (col2 m) r12))
          (add4 (add4 (scale4 (col0 m) r20) (scale4 (col1 m) r21)) (scale4 (col2 m) r22))
          (col3 m))"

text \<open>\<^verbatim>\<open>glm::perspective(fovy, aspect, zNear, zFar)\<close>, the field of view in radians.\<close>

definition glm_perspective :: "real \<Rightarrow> real \<Rightarrow> real \<Rightarrow> real \<Rightarrow> mat4" where
  "glm_perspective fovy aspect zNear zFar =
     (let tanHalfFovy = tan (fovy / 2)
      in Mat4
          (Vec4 (1 / (aspect * tanHalfFovy)) 0 0 0)
          (Vec4 0 (1 / tanHalfFovy) 0 0)
          (Vec4 0 0 (- (zFar + zNear) / (zFar - zNear)) (- 1))
          (Vec4 0 0 (- (2 * zFar * zNear) / (zFar - zNear)) 0))"

subsection \<open>The camera (onDraw, lines 173-182)\<close>

text \<open>
  The aspect ratio is \<^verbatim>\<open>rect.size.x / rect.size.y\<close>. A rectangle of height 0 makes
  it infinite or NaN in the source and 0 here; nothing below depends on the projection
  matrix of such a rectangle.
\<close>

definition make_projection :: "real \<Rightarrow> vec2 \<Rightarrow> mat4" where
  "make_projection camera_fov rsize =
     glm_perspective (glm_radians camera_fov) (v2x rsize / v2y rsize) 1 25000"

definition make_view :: "vec3 \<Rightarrow> real \<Rightarrow> real \<Rightarrow> mat4" where
  "make_view cam_pos yaw pitch =
     (let v0 = glm_rotate identity4 (glm_radians 90) (Vec3 1 0 0);
          v1 = glm_scale v0 (Vec3 1 1 (- 1));
          v2 = glm_rotate v1 (glm_radians (- pitch)) (Vec3 1 0 0);
          v3 = glm_rotate v2 (glm_radians (- (yaw + 90))) (Vec3 0 0 1)
      in glm_translate v3 (neg3 cam_pos))"

subsection \<open>Screen-space projection (worldToScreen, lines 466-487)\<close>

text \<open>
  A float quotient: \<open>None\<close> stands for the infinity or NaN that a zero divisor gives.
\<close>

definition fdiv :: "real \<Rightarrow> real \<Rightarrow> real option" where
  "fdiv a b = (if b = 0 then None else Some (a / b))"

text \<open>
  The returned \<^verbatim>\<open>glm::vec3\<close>. Its x and y come out of the perspective division and can
  be infinite or NaN (\<open>None\<close>); its z is always a number.
\<close>

datatype screen3 = Screen3 (sx: "real option") (sy: "real option") (sz: real)

text \<open>
  The members \<^verbatim>\<open>worldToScreen\<close> reads. The \<^verbatim>\<open>renderer\<close> argument of the source
  is never used by the body.
\<close>

record projector =
  view_matrix :: mat4
  projection_matrix :: mat4
  rect_position :: vec2
  rect_size :: vec2

definition worldToScreen :: "'a projector_scheme \<Rightarrow> vec3 \<Rightarrow> screen3" where
  "worldToScreen vp world =
     (let view_pos = mat_vec (view_matrix vp) (Vec4 (v3x world) (v3y world) (v3z world) 1);
          pos = mat_vec (projection_matrix vp) view_pos;
          pos_x = fdiv (v4x pos) (v4w pos);
          pos_y = fdiv (v4y pos) (v4w pos);
          ret_x = map_option (\<lambda>v. v * 0.5 + 0.5) pos_x;
          ret_y = map_option (\<lambda>v. v * 0.5 + 0.5) pos_y;
          ret_z = - v4z view_pos
      in Screen3
          (map_option (\<lambda>v. v2x (rect_position vp) + v2x (rect_size vp) * v) ret_x)
          (map_option (\<lambda>v. v2y (rect_position vp) + v2y (rect_size vp) * (1 - v)) ret_y)
          ret_z)"

subsection \<open>Entities and their components\<close>

text \<open>
  The component types live in headers outside this file; each record holds the members
  that \<^verbatim>\<open>onDraw\<close> reads or writes. An entity is a row of optional components, and a
  query \<^verbatim>\<open>sp::ecs::Query<A, B>\<close> walks the entity list in its order and yields the
  entities that have both.
\<close>

record transform =
  t_position :: vec2
  t_rotation :: real

record physics =
  ph_velocity :: vec2
  ph_size :: vec2

record zone =
  outline :: "vec2 list"
  skybox :: string
  skybox_fade_distance :: real

record emitter_data =
  ed_position :: vec3
  ed_color :: vec3
  ed_scale :: real

record engine_emitter =
  last_engine_particle_time :: real
  emitters :: "emitter_data list"

record impulse_engine =
  actual :: real

record entity =
  ent_id :: nat
  c_transform :: "transform option"
  c_physics :: "physics option"
  c_zone :: "zone option"
  c_engine_emitter :: "engine_emitter option"
  c_impulse :: "impulse_engine option"
  c_callsign :: "string option"
  c_target :: "nat option option"

text \<open>
  An entity handle (\<^verbatim>\<open>my_spaceship\<close>, the \<^verbatim>\<open>entity\<close> of a \<^verbatim>\<open>Target\<close>) is an
  optional id; it is valid when an entity of that id exists.
\<close>

definition find_entity :: "entity list \<Rightarrow> nat option \<Rightarrow> entity option" where
  "find_entity es h = (case h of None \<Rightarrow> None | Some i \<Rightarrow> find (\<lambda>e. ent_id e = i) es)"

text \<open>
  Functions of the engine library that the viewport calls and that are not part of this
  file. They are parameters of the model.
\<close>

record externals =
  insidePolygon :: "vec2 list \<Rightarrow> vec2 \<Rightarrow> bool"
  distanceToEdge :: "vec2 list \<Rightarrow> vec2 \<Rightarrow> real"
  rotateVec2 :: "vec2 \<Rightarrow> real \<Rightarrow> vec2"
  vec2FromAngle :: "real \<Rightarrow> vec2"
  random :: "nat \<Rightarrow> real"

subsection \<open>What a frame does: the calls onDraw makes, in order\<close>

text \<open>
  The calls a frame makes, as a list in the order they are made. A run of OpenGL calls
  that prepares and issues one draw is one event (\<open>DrawStarbox\<close>, \<open>DrawDust\<close>,
  \<open>DrawReticle\<close>); calls that only switch OpenGL state are \<open>GlCall\<close> with their name.
  A label is a string, or the number that \<^verbatim>\<open>string(angle)\<close> prints.
\<close>

datatype label = Text string | Number int

datatype event =
    RendererFinish
  | SetListenerPosition vec2 real
  | GlCall string
  | LoadCubemap string
  | DrawStarbox string string real
  | ParticleSpawn vec3 vec3 vec3 vec3 real real real
  | UpdateProjectionView mat4
  | Render3D real real
  | ParticleRender mat4 mat4
  | BufferSubData "vec3 list"
  | DrawDust vec2
  | DrawReticle mat4 real
  | DrawText "real option" "real option" label real "8 word"

subsection \<open>Skybox selection (onDraw, lines 190-208)\<close>

text \<open>\<^verbatim>\<open>std::clamp(v, lo, hi)\<close>\<close>

definition std_clamp :: "real \<Rightarrow> real \<Rightarrow> real \<Rightarrow> real" where
  "std_clamp v lo hi = (if v < lo then lo else if hi < v then hi else v)"

definition zone_query :: "entity list \<Rightarrow> (zone \<times> transform) list" where
  "zone_query es =
     List.map_filter
       (\<lambda>e. case (c_zone e, c_transform e) of
               (Some z, Some t) \<Rightarrow> Some (z, t)
             | _ \<Rightarrow> None) es"

text \<open>
  The loop of lines 196-208 over the query, from the initial values
  \<^verbatim>\<open>local_skybox_name = skybox_name\<close> and \<^verbatim>\<open>local_skybox_factor = 0\<close>; the result is
  the pair of both after the loop. \<open>cam\<close> is
  \<^verbatim>\<open>glm::vec2(camera_position.x, camera_position.y)\<close>; \<open>inside_fn\<close> and \<open>dist_fn\<close> are
  \<^verbatim>\<open>insidePolygon\<close> and \<^verbatim>\<open>distanceToEdge\<close>.
\<close>

fun select_skybox ::
  "(vec2 list \<Rightarrow> vec2 \<Rightarrow> bool) \<Rightarrow> (vec2 list \<Rightarrow> vec2 \<Rightarrow> real) \<Rightarrow> vec2 \<Rightarrow> string
     \<Rightarrow> (zone \<times> transform) list \<Rightarrow> string \<times> real" where
  "select_skybox inside_fn dist_fn cam skybox_name [] = (skybox_name, 0)"
| "select_skybox inside_fn dist_fn cam skybox_name ((z, t) # rest) =
     (if skybox z = [] then select_skybox inside_fn dist_fn cam skybox_name rest
      else
        (let pos = sub2 (t_position t) cam
         in if inside_fn (outline z) pos
            then (''skybox/'' @ skybox z,
                  if skybox_fade_distance z \<le> 0 then 1
                  else std_clamp (dist_fn (outline z) pos / skybox_fade_distance z) 0 1)
            else select_skybox inside_fn dist_fn cam skybox_name rest))"

definition global_skybox_name :: "string option \<Rightarrow> string" where
  "global_skybox_name default_skybox =
     (case default_skybox of None \<Rightarrow> ''skybox/default'' | Some n \<Rightarrow> ''skybox/'' @ n)"

text \<open>
  The texture cache \<^verbatim>\<open>skybox_textures\<close>: the names that hold a texture. A name that
  holds none is loaded and kept.
\<close>

definition get_cubemap :: "string \<Rightarrow> string list \<Rightarrow> event list \<times> string list" where
  "get_cubemap name cache =
     (if name \<in> set cache then ([], cache) else ([LoadCubemap name], name # cache))"

subsection \<open>Engine particles (onDraw, lines 261-278)\<close>

text \<open>
  One entity of the query at elapsed time \<open>now\<close>: the particles spawned, as calls of
  \<^verbatim>\<open>ParticleEngine::spawn\<close> with their seven arguments in order, and the emitter with
  its timestamp. \<open>rot\<close> is \<^verbatim>\<open>rotateVec2\<close>. \<^verbatim>\<open>engine->getElapsedTime()\<close> is read
  twice (lines 264 and 275); the clock does not advance inside a frame, so both reads are
  \<open>now\<close>.
\<close>

definition emit_entity ::
  "(vec2 \<Rightarrow> real \<Rightarrow> vec2) \<Rightarrow> real \<Rightarrow> engine_emitter \<Rightarrow> transform \<Rightarrow> impulse_engine
     \<Rightarrow> event list \<times> engine_emitter" where
  "emit_entity rot now ee tr impulse =
     (if actual impulse \<noteq> 0
      then
        (let engine_scale = \<bar>actual impulse\<bar>
         in if now - last_engine_particle_time ee > 0.1
            then
              (map (\<lambda>ed.
                      let offset = ed_position ed;
                          pos2d = add2 (t_position tr)
                                    (rot (Vec2 (v3x offset) (v3y offset)) (t_rotation tr));
                          color = ed_color ed;
                          pos3d = Vec3 (v2x pos2d) (v2y pos2d) (v3z offset);
                          scale = ed_scale ed * engine_scale
                      in ParticleSpawn pos3d pos3d color color scale 0 5)
                   (emitters ee),
               ee\<lparr>last_engine_particle_time := now\<rparr>)
            else ([], ee))
      else ([], ee))"

text \<open>
  The loop over \<^verbatim>\<open>Query<EngineEmitter, sp::Transform, ImpulseEngine>\<close>: entities
  without the three components are passed over; the emitter component of the others is
  written back.
\<close>

fun emit_pass ::
  "(vec2 \<Rightarrow> real \<Rightarrow> vec2) \<Rightarrow> real \<Rightarrow> entity list \<Rightarrow> event list \<times> entity list" where
  "emit_pass rot now [] = ([], [])"
| "emit_pass rot now (e # es) =
     (case (c_engine_emitter e, c_transform e, c_impulse e) of
        (Some ee, Some tr, Some impulse) \<Rightarrow>
          (let (evs, ee') = emit_entity rot now ee tr impulse;
               (evs_rest, es') = emit_pass rot now es
           in (evs @ evs_rest, e\<lparr>c_engine_emitter := Some ee'\<rparr> # es'))
      | _ \<Rightarrow>
          (let (evs_rest, es') = emit_pass rot now es
           in (evs_rest, e # es')))"

text \<open>
  One entity over a run of frames. Each frame gives the elapsed time and the entity's
  current transform and throttle; the emitter carries the timestamp from frame to frame.
  The result lists, per frame, the time and the particles spawned.
\<close>

fun emit_frames ::
  "(vec2 \<Rightarrow> real \<Rightarrow> vec2) \<Rightarrow> engine_emitter \<Rightarrow> (real \<times> transform \<times> impulse_engine) list
     \<Rightarrow> (real \<times> event list) list" where
  "emit_frames rot ee [] = []"
| "emit_frames rot ee ((now, tr, impulse) # frames) =
     (let (evs, ee') = emit_entity rot now ee tr impulse
      in (now, evs) # emit_frames rot ee' frames)"

text \<open>
  The times of the frames of such a run in which particles were spawned.
\<close>

definition emission_times :: "(real \<times> event list) list \<Rightarrow> real list" where
  "emission_times trace = map fst (filter (\<lambda>fr. snd fr \<noteq> []) trace)"

subsection \<open>The state of a frame\<close>

text \<open>
  Everything \<^verbatim>\<open>onDraw\<close> reads or writes: the members of the viewport (the first four
  are those of \<open>projector\<close>), the globals it consults (the field-of-view preference, the
  default skybox of \<^verbatim>\<open>gameGlobalInfo\<close> when there is one, the engine's elapsed time,
  the player's ship, the entities), the texture cache, the static dust array with the
  count of random draws, and the calls made so far.
\<close>

record frame = projector +
  camera_position :: vec3
  camera_yaw :: real
  camera_pitch :: real
  show_callsigns :: bool
  show_headings :: bool
  show_spacedust :: bool
  camera_fov_pref :: real
  default_skybox :: "string option"
  elapsed_time :: real
  my_spaceship :: "nat option"
  entities :: "entity list"
  skybox_textures :: "string list"
  static_space_dust :: "vec3 list"
  rng_calls :: nat
  events :: "event list"

subsection \<open>The space-dust pass (onDraw, lines 288-338)\<close>

text \<open>
  \<open>ship\<close> is the player's ship. \<open>dust_vector\<close> and \<open>dust_center\<close> are the two
  locals of lines 294 and 295.
\<close>

definition dust_vector :: "entity \<Rightarrow> vec2" where
  "dust_vector ship =
     (case c_physics ship of
        Some ph \<Rightarrow> Vec2 (v2x (ph_velocity ph) / 100) (v2y (ph_velocity ph) / 100)
      | None \<Rightarrow> Vec2 0 0)"

definition dust_center :: "entity \<Rightarrow> vec3 \<Rightarrow> vec3" where
  "dust_center ship cam_pos =
     (case c_transform ship of
        Some t \<Rightarrow> Vec3 (v2x (t_position t)) (v2y (t_position t)) 0
      | None \<Rightarrow> cam_pos)"

text \<open>
  The pass: the update loop from index 0 with \<^verbatim>\<open>update_required = false\<close>, then the
  draw. The result is the calls made, the dust array and the count of random draws after
  the pass.
\<close>

definition dust_update :: "(nat \<Rightarrow> real) \<Rightarrow> vec3 \<Rightarrow> vec3 list \<Rightarrow> nat \<Rightarrow> dust_state" where
  "dust_update rnd center dust calls =
     dust_loop rnd center 0
       \<lparr>space_dust = dust, update_required = False, random_calls = calls\<rparr>"

definition dust_pass ::
  "(nat \<Rightarrow> real) \<Rightarrow> entity \<Rightarrow> vec3 \<Rightarrow> vec3 list \<Rightarrow> nat
     \<Rightarrow> event list \<times> vec3 list \<times> nat" where
  "dust_pass rnd ship cam_pos dust calls =
     (let s = dust_update rnd (dust_center ship cam_pos) dust calls
      in ([GlCall ''spacedust_shader->bind'', GlCall ''glUniformMatrix4fv'',
           GlCall ''glUniformMatrix4fv'', GlCall ''glUniform2f velocity'',
           GlCall ''glBindBuffer spacedust_buffer'']
          @ (if update_required s then [BufferSubData (space_dust s)] else [])
          @ [GlCall ''glVertexAttribPointer'', GlCall ''glVertexAttribPointer'',
             DrawDust (dust_vector ship), GlCall ''glBindBuffer GL_NONE''],
          space_dust s, random_calls s))"

text \<open>
  The position range of the GPU buffer after a list of calls:
  \<^verbatim>\<open>glBufferSubData(GL_ARRAY_BUFFER, 0, ...)\<close> is the one call that writes it.
\<close>

definition is_upload :: "event \<Rightarrow> bool" where
  "is_upload ev = (case ev of BufferSubData xs \<Rightarrow> True | _ \<Rightarrow> False)"

definition gpu_positions :: "event list \<Rightarrow> vec3 list \<Rightarrow> vec3 list" where
  "gpu_positions evs buffer =
     fold (\<lambda>ev b. case ev of BufferSubData xs \<Rightarrow> xs | _ \<Rightarrow> b) evs buffer"

subsection \<open>The target reticle (onDraw, lines 340-376)\<close>

definition draw_reticle :: "entity list \<Rightarrow> entity option \<Rightarrow> event list" where
  "draw_reticle es ship =
     (case (case ship of None \<Rightarrow> None | Some e \<Rightarrow> c_target e) of
        None \<Rightarrow> []
      | Some h \<Rightarrow>
          (case find_entity es h of
             None \<Rightarrow> []
           | Some target \<Rightarrow>
               (let model_matrix =
                      (case c_transform target of
                         Some t \<Rightarrow>
                           glm_translate identity4
                             (Vec3 (v2x (t_position t)) (v2y (t_position t)) 0)
                       | None \<Rightarrow> identity4);
                    radius =
                      (case c_physics target of Some ph \<Rightarrow> v2x (ph_size ph) | None \<Rightarrow> 300)
                in [GlCall ''glDisable GL_DEPTH_TEST'',
                    DrawReticle model_matrix (radius * 2.5)])))"

subsection \<open>Callsigns (onDraw, lines 428-445)\<close>

text \<open>
  The conversion of a float to the \<^verbatim>\<open>glm::u8\<close> of a colour channel
  (\<^verbatim>\<open>static_cast\<close>): the fraction is dropped. The values converted here lie
  between 0 and 128.
\<close>

definition u8_cast :: "real \<Rightarrow> 8 word" where
  "u8_cast r = word_of_int (if 0 \<le> r then \<lfloor>r\<rfloor> else \<lceil>r\<rceil>)"

definition callsign_query :: "entity list \<Rightarrow> (entity \<times> string \<times> transform) list" where
  "callsign_query es =
     List.map_filter
       (\<lambda>e. case (c_callsign e, c_transform e) of
               (Some c, Some t) \<Rightarrow> Some (e, c, t)
             | _ \<Rightarrow> None) es"

text \<open>The body of the loop for one entity of the query: no call, or one \<open>DrawText\<close>.\<close>

definition draw_callsign ::
  "'a projector_scheme \<Rightarrow> nat option \<Rightarrow> entity \<times> string \<times> transform \<Rightarrow> event list" where
  "draw_callsign vp my_ship q =
     (case q of (e, callsign, tr) \<Rightarrow>
        if Some (ent_id e) = my_ship then []
        else
          (let radius = (case c_physics e of Some ph \<Rightarrow> v2x (ph_size ph) | None \<Rightarrow> 300);
               screen_position =
                 worldToScreen vp (Vec3 (v2x (t_position tr)) (v2y (t_position tr)) radius)
           in if sz screen_position < 0 then []
              else if sz screen_position > 10000 then []
              else
                (let distance_factor = 1 - sz screen_position / 10000
                 in [DrawText (sx screen_position) (sy screen_position) (Text callsign)
                       (20 * distance_factor) (u8_cast (128 * distance_factor))])))"

definition draw_callsigns ::
  "'a projector_scheme \<Rightarrow> nat option \<Rightarrow> entity list \<Rightarrow> event list" where
  "draw_callsigns vp my_ship es = concat (map (draw_callsign vp my_ship) (callsign_query es))"

subsection \<open>Headings (onDraw, lines 447-461)\<close>

text \<open>
  \<^verbatim>\<open>for (int angle = 0; angle < 360; angle += 30)\<close>; \<open>from_angle\<close> is
  \<^verbatim>\<open>vec2FromAngle\<close>.
\<close>

function heading_loop ::
  "(real \<Rightarrow> vec2) \<Rightarrow> 'b projector_scheme \<Rightarrow> transform \<Rightarrow> int \<Rightarrow> event list" where
  "heading_loop from_angle vp tr angle =
     (if angle < 360
      then
        (let dir = from_angle (real_of_int angle - 90);
             world_pos = add2 (t_position tr) (Vec2 (v2x dir * 2500) (v2y dir * 2500));
             screen_pos = worldToScreen vp (Vec3 (v2x world_pos) (v2y world_pos) 0)
         in (if sz screen_pos > 0
             then [DrawText (sx screen_pos) (sy screen_pos) (Number angle) 30 128]
             else [])
            @ heading_loop from_angle vp tr (angle + 30))
      else [])"
  by pat_completeness auto
termination
  by (relation "measure (\<lambda>(ext, vp, tr, angle). nat (360 - angle))") auto

declare heading_loop.simps [simp del]

subsection \<open>The frame (onDraw, lines 134-464)\<close>

text \<open>
  The calls of lines 146-171, before the camera is set up. \<open>ship\<close> is the entity behind
  \<^verbatim>\<open>my_spaceship\<close>, when there is one.
\<close>

definition frame_begin :: "entity option \<Rightarrow> frame \<Rightarrow> event list" where
  "frame_begin ship fr =
     [RendererFinish,
      (case (case ship of None \<Rightarrow> None | Some e \<Rightarrow> c_transform e) of
         Some t \<Rightarrow> SetListenerPosition (t_position t) (t_rotation t)
       | None \<Rightarrow>
           SetListenerPosition (Vec2 (v3x (camera_position fr)) (v3y (camera_position fr)))
             (camera_yaw fr)),
      GlCall ''glActiveTexture GL_TEXTURE0'', GlCall ''glViewport rect'',
      GlCall ''glClearDepth'', GlCall ''glClear'',
      GlCall ''glEnable GL_DEPTH_TEST'', GlCall ''glEnable GL_CULL_FACE'',
      GlCall ''glCullFace GL_BACK'', GlCall ''glFrontFace GL_CCW'']"

text \<open>
  The starbox (lines 185-258): the calls made, and the texture cache afterwards.
\<close>

definition starbox_pass :: "'a externals_scheme \<Rightarrow> frame \<Rightarrow> event list \<times> string list" where
  "starbox_pass ext fr =
     (let skybox_name = global_skybox_name (default_skybox fr);
          (local_skybox_name, local_skybox_factor) =
            select_skybox (insidePolygon ext) (distanceToEdge ext)
              (Vec2 (v3x (camera_position fr)) (v3y (camera_position fr))) skybox_name
              (zone_query (entities fr));
          (load_global, cache1) = get_cubemap skybox_name (skybox_textures fr);
          (load_local, cache2) = get_cubemap local_skybox_name cache1
      in ([GlCall ''glDepthMask GL_FALSE'', GlCall ''starbox_shader->bind'']
          @ load_global @ load_local
          @ [DrawStarbox skybox_name local_skybox_name local_skybox_factor,
             GlCall ''glBindTexture GL_NONE'', GlCall ''glBindTexture GL_NONE'',
             GlCall ''glDepthMask GL_TRUE''],
          cache2))"

text \<open>The switches of OpenGL state between the scene and the overlays (lines 378-426).\<close>

definition overlay_state :: "event list" where
  "overlay_state =
     [GlCall ''glDepthMask true'', GlCall ''glDisable GL_BLEND'',
      GlCall ''glEnable GL_CULL_FACE'', GlCall ''glDisable GL_CULL_FACE'',
      GlCall ''glDisable GL_DEPTH_TEST'', GlCall ''glEnable GL_BLEND'',
      GlCall ''glBlendFunc'']"

text \<open>The two assignments of lines 173-182 to the members of the viewport.\<close>

definition set_camera :: "frame \<Rightarrow> frame" where
  "set_camera fr =
     fr\<lparr>projection_matrix := make_projection (camera_fov_pref fr) (rect_size fr),
        view_matrix := make_view (camera_position fr) (camera_yaw fr) (camera_pitch fr)\<rparr>"

text \<open>
  The frame. The one \<^verbatim>\<open>return\<close> of the function is the first test; after it every pass
  runs in the order of the source, and the calls of all passes are appended to those made
  before the frame.
\<close>

definition onDraw :: "'a externals_scheme \<Rightarrow> frame \<Rightarrow> frame" where
  "onDraw ext fr =
     (if v2x (rect_size fr) = 0 then fr
      else
        (let ship = find_entity (entities fr) (my_spaceship fr);
             cam = camera_position fr;
             ev_begin = frame_begin ship fr;
             fr1 = set_camera fr;
             (ev_starbox, cache) = starbox_pass ext fr;
             (ev_emit, es) = emit_pass (rotateVec2 ext) (elapsed_time fr) (entities fr);
             ev_scene =
               [UpdateProjectionView (view_matrix fr1),
                Render3D (v2x (rect_size fr) / v2y (rect_size fr)) (camera_fov_pref fr),
                ParticleRender (projection_matrix fr1) (view_matrix fr1)];
             (ev_dust, dust, calls) =
               (case ship of
                  Some e \<Rightarrow>
                    if show_spacedust fr
                    then dust_pass (random ext) e cam (static_space_dust fr) (rng_calls fr)
                    else ([], static_space_dust fr, rng_calls fr)
                | None \<Rightarrow> ([], static_space_dust fr, rng_calls fr));
             ev_reticle = draw_reticle es ship;
             ev_callsigns =
               (if show_callsigns fr then draw_callsigns fr1 (my_spaceship fr) es else []);
             ev_headings =
               (case ship of
                  Some e \<Rightarrow>
                    if show_headings fr
                    then (case c_transform e of
                            Some t \<Rightarrow> heading_loop (vec2FromAngle ext) fr1 t 0
                          | None \<Rightarrow> [])
                    else []
                | None \<Rightarrow> [])
         in fr1\<lparr>entities := es,
                skybox_textures := cache,
                static_space_dust := dust,
                rng_calls := calls,
                events := events fr @ ev_begin @ ev_starbox @ ev_emit @ ev_scene @ ev_dust
                            @ ev_reticle @ overlay_state @ ev_callsigns @ ev_headings
                            @ [GlCall ''glViewport full'']\<rparr>))"

text \<open>The calls a frame adds to those made before it.\<close>

definition frame_calls :: "'a externals_scheme \<Rightarrow> frame \<Rightarrow> event list" where
  "frame_calls ext fr = drop (length (events fr)) (events (onDraw ext fr))"

subsection \<open>The projector as the specification words it\<close>

text \<open>
  Section 4.2 of the specification, step by step: transform the world point by the view
  matrix, then by the projection matrix; divide by \<open>w\<close>; map each of the resulting
  coordinates from [-1, 1] to [0, 1], the vertical one flipped; scale into the viewport
  rectangle; return the camera-space depth as the third component.
\<close>

definition ndc_to_unit :: "real \<Rightarrow> real" where
  "ndc_to_unit c = (c + 1) / 2"

definition worldToScreen_spec :: "'a projector_scheme \<Rightarrow> vec3 \<Rightarrow> screen3" where
  "worldToScreen_spec vp world =
     (let eye = mat_vec (view_matrix vp) (Vec4 (v3x world) (v3y world) (v3z world) 1);
          clip = mat_vec (projection_matrix vp) eye;
          ndc_x = fdiv (v4x clip) (v4w clip);
          ndc_y = fdiv (v4y clip) (v4w clip);
          u = map_option ndc_to_unit ndc_x;
          v = map_option (\<lambda>c. 1 - ndc_to_unit c) ndc_y
      in Screen3
          (map_option (\<lambda>u. v2x (rect_position vp) + u * v2x (rect_size vp)) u)
          (map_option (\<lambda>v. v2y (rect_position vp) + v * v2y (rect_size vp)) v)
          (- v4z eye))"

subsection \<open>The world point of a callsign\<close>

text \<open>
  The point the callsign loop hands to \<^verbatim>\<open>worldToScreen\<close> at line 437, as a function of
  the entity and its transform: the ground position, lifted by the radius of lines
  434-436.
\<close>

definition callsign_anchor :: "entity \<Rightarrow> transform \<Rightarrow> vec3" where
  "callsign_anchor e tr =
     Vec3 (v2x (t_position tr)) (v2y (t_position tr))
       (case c_physics e of Some ph \<Rightarrow> v2x (ph_size ph) | None \<Rightarrow> 300)"

subsection \<open>Zones and the camera\<close>

text \<open>
  Modelled from the spec: \<^verbatim>\<open>insidePolygon\<close> is a function of the engine library and
  not part of this file; the specification has it decide whether the outline polygon
  contains a point. \<open>polygon_contains\<close> decides that by counting the edges a ray from
  the point crosses (even-odd rule), each edge \<open>pb\<close> to \<open>pa\<close> running from a corner's
  predecessor to the corner. It stands for the library function wherever a concrete
  polygon is tested; the model of \<^verbatim>\<open>onDraw\<close> takes the library function as a parameter.
\<close>

definition edge_crosses :: "vec2 \<Rightarrow> vec2 \<Rightarrow> vec2 \<Rightarrow> bool" where
  "edge_crosses pb pa pt =
     ((v2y pa > v2y pt) \<noteq> (v2y pb > v2y pt)
      \<and> v2x pt < (v2x pb - v2x pa) * (v2y pt - v2y pa) / (v2y pb - v2y pa) + v2x pa)"

definition polygon_contains :: "vec2 list \<Rightarrow> vec2 \<Rightarrow> bool" where
  "polygon_contains path pt =
     odd (length (filter (\<lambda>(pb, pa). edge_crosses pb pa pt) (zip (last path # butlast path) path)))"

text \<open>
  A zone's outline is given relative to the position of the zone's transform, which is
  why line 199 subtracts positions before the test. The camera's ground position is
  inside the zone when the outline contains the camera's position relative to the zone.
\<close>

definition camera_in_zone :: "(vec2 list \<Rightarrow> vec2 \<Rightarrow> bool) \<Rightarrow> vec2 \<Rightarrow> zone \<times> transform \<Rightarrow> bool" where
  "camera_in_zone inside_fn cam zt =
     (case zt of (z, t) \<Rightarrow> inside_fn (outline z) (sub2 cam (t_position t)))"

subsection \<open>A concrete scene\<close>

text \<open>
  The camera of the end-to-end case of the specification (origin, yaw 0, pitch 0, field of
  view 60 degrees, rectangle 800 by 600 at the origin), as \<^verbatim>\<open>onDraw\<close> sets it up, and
  an entity with no component, to which components are added where needed.
\<close>

definition origin_camera :: projector where
  "origin_camera =
     \<lparr>view_matrix = make_view (Vec3 0 0 0) 0 0,
      projection_matrix = make_projection 60 (Vec2 800 600),
      rect_position = Vec2 0 0, rect_size = Vec2 800 600\<rparr>"

definition bare_entity :: "nat \<Rightarrow> entity" where
  "bare_entity i =
     \<lparr>ent_id = i, c_transform = None, c_physics = None, c_zone = None,
      c_engine_emitter = None, c_impulse = None, c_callsign = None, c_target = None\<rparr>"

text \<open>
  Two zones: a wedge with its right angle near its centre, and the same wedge mirrored
  through the centre.
\<close>

definition wedge_zone :: "string \<Rightarrow> real \<Rightarrow> zone" where
  "wedge_zone name fade =
     \<lparr>outline = [Vec2 (- 10) (- 10), Vec2 100 (- 10), Vec2 (- 10) 100],
      skybox = name, skybox_fade_distance = fade\<rparr>"

definition mirrored_wedge_zone :: "string \<Rightarrow> real \<Rightarrow> zone" where
  "mirrored_wedge_zone name fade =
     \<lparr>outline = [Vec2 10 10, Vec2 (- 100) 10, Vec2 10 (- 100)],
      skybox = name, skybox_fade_distance = fade\<rparr>"

text \<open>An entity that is a zone at a position.\<close>

definition zone_entity :: "nat \<Rightarrow> zone \<Rightarrow> vec2 \<Rightarrow> entity" where
  "zone_entity i z pos =
     (bare_entity i)\<lparr>c_transform := Some \<lparr>t_position = pos, t_rotation = 0\<rparr>, c_zone := Some z\<rparr>"

text \<open>
  A stand-in for the engine library, and a frame with no entity, the camera at the origin
  and every overlay switched on, for a given size of the rectangle.
\<close>

definition plain_library :: externals where
  "plain_library =
     \<lparr>insidePolygon = polygon_contains, distanceToEdge = (\<lambda>path pt. 0),
      rotateVec2 = (\<lambda>v angle. v), vec2FromAngle = (\<lambda>angle. Vec2 1 0), random = (\<lambda>k. 0)\<rparr>"

definition empty_scene :: "vec2 \<Rightarrow> frame" where
  "empty_scene rsize =
     \<lparr>view_matrix = identity4, projection_matrix = identity4,
      rect_position = Vec2 0 0, rect_size = rsize,
      camera_position = Vec3 0 0 0, camera_yaw = 0, camera_pitch = 0,
      show_callsigns = True, show_headings = True, show_spacedust = True,
      camera_fov_pref = 60, default_skybox = None, elapsed_time = 0,
      my_spaceship = None, entities = [], skybox_textures = [],
      static_space_dust = [], rng_calls = 0, events = []\<rparr>"

text \<open>
  A frame with the player's ship at (1000, 2000), the dust array of one pair still zeroed.
\<close>

definition ship_scene :: frame where
  "ship_scene =
     (empty_scene (Vec2 800 600))
       \<lparr>my_spaceship := Some 7,
        entities := [(bare_entity 7)\<lparr>c_transform :=
                       Some \<lparr>t_position = Vec2 1000 2000, t_rotation = 0\<rparr>\<rparr>],
        static_space_dust := [Vec3 0 0 0, Vec3 0 0 0]\<rparr>"

section \<open>Properties\<close>

subsection \<open>The passes of a frame\<close>

text \<open>
  A frame that is not skipped makes the calls of its passes one after the other, and
  leaves in the state what the passes computed.
\<close>

lemma onDraw_events:
  assumes "v2x (rect_size fr) \<noteq> 0"
  shows "events (onDraw ext fr)
           = events fr
             @ frame_begin (find_entity (entities fr) (my_spaceship fr)) fr
             @ fst (starbox_pass ext fr)
             @ fst (emit_pass (rotateVec2 ext) (elapsed_time fr) (entities fr))
             @ [UpdateProjectionView (view_matrix (set_camera fr)),
                Render3D (v2x (rect_size fr) / v2y (rect_size fr)) (camera_fov_pref fr),
                ParticleRender (projection_matrix (set_camera fr)) (view_matrix (set_camera fr))]
             @ (case find_entity (entities fr) (my_spaceship fr) of
                  Some e \<Rightarrow>
                    if show_spacedust fr
                    then fst (dust_pass (random ext) e (camera_position fr)
                                (static_space_dust fr) (rng_calls fr))
                    else []
                | None \<Rightarrow> [])
             @ draw_reticle (entities (onDraw ext fr))
                 (find_entity (entities fr) (my_spaceship fr))
             @ overlay_state
             @ (if show_callsigns fr
                then draw_callsigns (set_camera fr) (my_spaceship fr) (entities (onDraw ext fr))
                else [])
             @ (case find_entity (entities fr) (my_spaceship fr) of
                  Some e \<Rightarrow>
                    if show_headings fr
                    then (case c_transform e of
                            Some t \<Rightarrow> heading_loop (vec2FromAngle ext) (set_camera fr) t 0
                          | None \<Rightarrow> [])
                    else []
                | None \<Rightarrow> [])
             @ [GlCall ''glViewport full'']"
  using assms by (simp add: onDraw_def Let_def split_beta split: option.splits)

lemma onDraw_state:
  assumes "v2x (rect_size fr) \<noteq> 0"
  shows "entities (onDraw ext fr) = snd (emit_pass (rotateVec2 ext) (elapsed_time fr) (entities fr))"
    and "skybox_textures (onDraw ext fr) = snd (starbox_pass ext fr)"
    and "static_space_dust (onDraw ext fr)
          = (case find_entity (entities fr) (my_spaceship fr) of
               Some e \<Rightarrow>
                 if show_spacedust fr
                 then fst (snd (dust_pass (random ext) e (camera_position fr)
                                  (static_space_dust fr) (rng_calls fr)))
                 else static_space_dust fr
             | None \<Rightarrow> static_space_dust fr)"
  using assms by (simp_all add: onDraw_def Let_def split_beta split: option.splits)

subsection \<open>The space-dust update loop\<close>

lemma dust_step_nth_other:
  "i \<noteq> n \<Longrightarrow> i \<noteq> n + 1 \<Longrightarrow> space_dust (dust_step rnd c n s) ! i = space_dust s ! i"
  by (simp add: dust_step_def Let_def)

lemma dust_loop_length [simp]:
  "length (space_dust (dust_loop rnd c n s)) = length (space_dust s)"
proof (induction rnd c n s rule: dust_loop.induct)
  case (1 rnd c n s)
  show ?case
  proof (cases "n < length (space_dust s)")
    case True
    with 1 show ?thesis by (subst dust_loop.simps) simp
  next
    case False
    then show ?thesis by (subst dust_loop.simps) simp
  qed
qed

lemma dust_loop_below:
  "i < n \<Longrightarrow> space_dust (dust_loop rnd c n s) ! i = space_dust s ! i"
proof (induction rnd c n s rule: dust_loop.induct)
  case (1 rnd c n s)
  show ?case
  proof (cases "n < length (space_dust s)")
    case True
    have "space_dust (dust_loop rnd c (n + 2) (dust_step rnd c n s)) ! i
            = space_dust (dust_step rnd c n s) ! i"
      using 1 True by simp
    also have "\<dots> = space_dust s ! i"
      using 1(2) by (simp add: dust_step_nth_other)
    finally show ?thesis using True by (subst dust_loop.simps) simp
  next
    case False
    then show ?thesis by (subst dust_loop.simps) simp
  qed
qed

lemma dust_step_flag:
  "update_required (dust_step rnd c n s) = (update_required s \<or> out_of_shell c (space_dust s ! n))"
  by (simp add: dust_step_def Let_def)

lemma dust_loop_flag:
  "update_required (dust_loop rnd c n s) =
     (update_required s \<or> (\<exists>k. n + 2 * k < length (space_dust s) \<and> out_of_shell c (space_dust s ! (n + 2 * k))))"
proof (induction rnd c n s rule: dust_loop.induct)
  case (1 rnd c n s)
  show ?case
  proof (cases "n < length (space_dust s)")
    case True
    let ?s' = "dust_step rnd c n s"
    have later: "space_dust ?s' ! (n + 2 + 2 * k) = space_dust s ! (n + 2 + 2 * k)" for k
      by (simp add: dust_step_nth_other)
    have "update_required (dust_loop rnd c n s) = update_required (dust_loop rnd c (n + 2) ?s')"
      using True by (subst dust_loop.simps) simp
    also have "\<dots> = (update_required ?s' \<or>
        (\<exists>k. n + 2 + 2 * k < length (space_dust ?s') \<and> out_of_shell c (space_dust ?s' ! (n + 2 + 2 * k))))"
      using 1 [OF True] .
    also have "\<dots> = (update_required ?s' \<or>
        (\<exists>k. n + 2 + 2 * k < length (space_dust s) \<and> out_of_shell c (space_dust s ! (n + 2 + 2 * k))))"
      by (simp only: later length_dust_step)
    also have "\<dots> = (update_required s \<or> out_of_shell c (space_dust s ! n) \<or>
        (\<exists>k. n + 2 * Suc k < length (space_dust s) \<and> out_of_shell c (space_dust s ! (n + 2 * Suc k))))"
      by (simp add: dust_step_flag add.assoc disj_assoc)
    also have "\<dots> = (update_required s \<or>
        (\<exists>k. n + 2 * k < length (space_dust s) \<and> out_of_shell c (space_dust s ! (n + 2 * k))))"
    proof -
      have "(\<exists>k. n + 2 * k < length (space_dust s) \<and> out_of_shell c (space_dust s ! (n + 2 * k)))
            = (out_of_shell c (space_dust s ! n) \<or>
               (\<exists>k. n + 2 * Suc k < length (space_dust s) \<and> out_of_shell c (space_dust s ! (n + 2 * Suc k))))"
        (is "(\<exists>k. ?P k) = (?A \<or> (\<exists>k. ?P (Suc k)))")
      proof
        assume "\<exists>k. ?P k"
        then obtain k where k: "?P k" by blast
        show "?A \<or> (\<exists>k. ?P (Suc k))"
        proof (cases k)
          case 0
          with k show ?thesis by simp
        next
          case (Suc j)
          with k show ?thesis by blast
        qed
      next
        assume "?A \<or> (\<exists>k. ?P (Suc k))"
        then show "\<exists>k. ?P k"
        proof
          assume ?A
          with True have "?P 0" by simp
          then show ?thesis by blast
        next
          assume "\<exists>k. ?P (Suc k)"
          then show ?thesis by blast
        qed
      qed
      then show ?thesis by simp
    qed
    finally show ?thesis .
  next
    case False
    then show ?thesis by (subst dust_loop.simps) simp
  qed
qed


lemma dust_loop_visit:
  assumes "Suc (n + 2 * k) < length (space_dust s)"
  shows "(if out_of_shell c (space_dust s ! (n + 2 * k))
          then (\<exists>j. space_dust (dust_loop rnd c n s) ! (n + 2 * k)
                      = add3 c (Vec3 (rnd j) (rnd (j + 1)) (rnd (j + 2))))
               \<and> space_dust (dust_loop rnd c n s) ! Suc (n + 2 * k)
                   = space_dust (dust_loop rnd c n s) ! (n + 2 * k)
          else space_dust (dust_loop rnd c n s) ! (n + 2 * k) = space_dust s ! (n + 2 * k)
               \<and> space_dust (dust_loop rnd c n s) ! Suc (n + 2 * k)
                   = space_dust s ! Suc (n + 2 * k))"
  using assms
proof (induction k arbitrary: n s)
  case 0
  let ?s' = "dust_step rnd c n s"
  from 0 have n: "n < length (space_dust s)" "Suc n < length (space_dust s)" by simp_all
  have unfold: "dust_loop rnd c n s = dust_loop rnd c (n + 2) ?s'"
    using n by (subst dust_loop.simps) simp
  have r0: "space_dust (dust_loop rnd c n s) ! n = space_dust ?s' ! n"
    unfolding unfold by (rule dust_loop_below) simp
  have r1: "space_dust (dust_loop rnd c n s) ! Suc n = space_dust ?s' ! Suc n"
    unfolding unfold by (rule dust_loop_below) simp
  show ?case
    using n by (auto simp: r0 r1 dust_step_def Let_def)
next
  case (Suc k)
  let ?s' = "dust_step rnd c n s"
  from Suc.prems have n: "n < length (space_dust s)" by simp
  have unfold: "dust_loop rnd c n s = dust_loop rnd c (n + 2) ?s'"
    using n by (subst dust_loop.simps) simp
  have idx: "n + 2 * Suc k = (n + 2) + 2 * k" by simp
  have same: "space_dust ?s' ! (n + 2 + 2 * k) = space_dust s ! (n + 2 + 2 * k)"
             "space_dust ?s' ! Suc (n + 2 + 2 * k) = space_dust s ! Suc (n + 2 + 2 * k)"
    by (simp_all add: dust_step_nth_other)
  have "Suc (n + 2 + 2 * k) < length (space_dust ?s')"
    using Suc.prems by simp
  from Suc.IH [OF this] show ?case
    unfolding unfold idx same .
qed

lemma square_bound: "- b \<le> a \<Longrightarrow> a \<le> b \<Longrightarrow> a * a \<le> b * (b::real)"
  by (metis abs_le_iff abs_le_square_iff minus_le_iff power2_eq_square abs_ge_zero abs_of_nonneg order_trans)

lemma respawn_distance:
  assumes "\<forall>k. - maxDustDist \<le> rnd k \<and> rnd k \<le> maxDustDist"
  shows "length2 (sub3 (add3 c (Vec3 (rnd j) (rnd (j + 1)) (rnd (j + 2)))) c)
           \<le> 3 * (maxDustDist * maxDustDist)"
proof -
  have "rnd i * rnd i \<le> maxDustDist * maxDustDist" for i
    using assms by (intro square_bound) auto
  from this [of j] this [of "j + 1"] this [of "j + 2"]
  show ?thesis by (simp add: length2_def sub3_def add3_def)
qed

lemma dust_loop_unchanged:
  "\<not> update_required (dust_loop rnd c n s) \<Longrightarrow> space_dust (dust_loop rnd c n s) = space_dust s"
proof (induction rnd c n s rule: dust_loop.induct)
  case (1 rnd c n s)
  show ?case
  proof (cases "n < length (space_dust s)")
    case True
    let ?s' = "dust_step rnd c n s"
    have unfold: "dust_loop rnd c n s = dust_loop rnd c (n + 2) ?s'"
      using True by (subst dust_loop.simps) simp
    from 1(2) have quiet: "\<not> update_required (dust_loop rnd c (n + 2) ?s')"
      by (simp add: unfold)
    then have "\<not> update_required ?s'"
      by (simp add: dust_loop_flag)
    then have "?s' = s"
      by (simp add: dust_step_def Let_def split: if_splits)
    moreover have "space_dust (dust_loop rnd c (n + 2) ?s') = space_dust ?s'"
      using 1(1) [OF True quiet] .
    ultimately show ?thesis by (simp add: unfold)
  next
    case False
    then show ?thesis by (subst dust_loop.simps) simp
  qed
qed

lemma even_index_iff:
  assumes "length xs = 2 * N"
  shows "(\<exists>k. 0 + 2 * k < length xs \<and> P (xs ! (0 + 2 * k))) = (\<exists>m<N. P (xs ! (2 * m)))"
  using assms by auto

lemma dust_update_flag:
  assumes "length dust = 2 * N"
  shows "update_required (dust_update rnd center dust calls)
           = (\<exists>m<N. out_of_shell center (dust ! (2 * m)))"
  using even_index_iff [OF assms, of "out_of_shell center"]
  by (simp add: dust_update_def dust_loop_flag)

text \<open>
  The pass makes one upload, of the array as the loop left it, when some pair was
  respawned, and none otherwise.
\<close>

lemma dust_pass_upload:
  assumes "length dust = 2 * N"
  shows "(case dust_pass rnd ship cam dust calls of (evs, dust', calls') \<Rightarrow>
           let respawned = (\<exists>m<N. out_of_shell (dust_center ship cam) (dust ! (2 * m)))
           in filter is_upload evs = (if respawned then [BufferSubData dust'] else [])
              \<and> gpu_positions evs buffer = (if respawned then dust' else buffer)
              \<and> (\<not> respawned \<longrightarrow> dust' = dust))"
proof -
  let ?s = "dust_update rnd (dust_center ship cam) dust calls"
  have flag: "update_required ?s = (\<exists>m<N. out_of_shell (dust_center ship cam) (dust ! (2 * m)))"
    by (rule dust_update_flag [OF assms])
  have same: "\<not> update_required ?s \<Longrightarrow> space_dust ?s = dust"
    using dust_loop_unchanged [of rnd "dust_center ship cam" 0
        "\<lparr>space_dust = dust, update_required = False, random_calls = calls\<rparr>"]
    by (simp add: dust_update_def)
  show ?thesis
  proof (cases "update_required ?s")
    case True
    with flag show ?thesis
      by (simp add: dust_pass_def Let_def is_upload_def gpu_positions_def)
  next
    case False
    with flag same show ?thesis
      by (simp add: dust_pass_def Let_def is_upload_def gpu_positions_def)
  qed
qed

lemma in_shell_bounds:
  "\<not> out_of_shell c p \<Longrightarrow>
     minDustDist * minDustDist \<le> length2 (sub3 p c) \<and> length2 (sub3 p c) \<le> maxDustDist * maxDustDist"
  by (simp add: out_of_shell_def Let_def not_less)

text \<open>
  C1, as the code has it. A respawned pair is placed at the dust centre plus three random
  draws, one per axis, and is not tested again in the same pass. So after the update loop
  a visited pair \<open>m\<close> is in one of two states. Either its first endpoint was inside the
  shell when the loop reached it: then both endpoints are untouched, and the squared
  distance of the first from the centre lies between \<open>minDustDist\<^sup>2\<close> and
  \<open>maxDustDist\<^sup>2\<close>. Or it was respawned: then both endpoints coincide at the centre
  plus three draws, and, the draws lying between \<open>-maxDustDist\<close> and \<open>maxDustDist\<close>, the
  squared distance is at most \<open>3 * maxDustDist\<^sup>2\<close> (the corner of the cube), with no
  lower bound.
\<close>

theorem dust_update_visited_pair:
  assumes "length dust = 2 * N" and "m < N"
    and "\<forall>k. - maxDustDist \<le> rnd k \<and> rnd k \<le> maxDustDist"
  shows "(let after = space_dust (dust_update rnd center dust calls);
              p = after ! (2 * m); q = after ! (2 * m + 1);
              d2 = length2 (sub3 p center)
          in if out_of_shell center (dust ! (2 * m))
             then q = p
                  \<and> (\<exists>j. p = add3 center (Vec3 (rnd j) (rnd (j + 1)) (rnd (j + 2))))
                  \<and> d2 \<le> 3 * (maxDustDist * maxDustDist)
             else p = dust ! (2 * m) \<and> q = dust ! (2 * m + 1)
                  \<and> minDustDist * minDustDist \<le> d2 \<and> d2 \<le> maxDustDist * maxDustDist)"
proof -
  let ?s = "\<lparr>space_dust = dust, update_required = False, random_calls = calls\<rparr>"
  have "Suc (0 + 2 * m) < length (space_dust ?s)"
    using assms(1,2) by simp
  from dust_loop_visit [OF this, of center rnd]
  have visit: "(if out_of_shell center (dust ! (2 * m))
          then (\<exists>j. space_dust (dust_update rnd center dust calls) ! (2 * m)
                      = add3 center (Vec3 (rnd j) (rnd (j + 1)) (rnd (j + 2))))
               \<and> space_dust (dust_update rnd center dust calls) ! Suc (2 * m)
                   = space_dust (dust_update rnd center dust calls) ! (2 * m)
          else space_dust (dust_update rnd center dust calls) ! (2 * m) = dust ! (2 * m)
               \<and> space_dust (dust_update rnd center dust calls) ! Suc (2 * m)
                   = dust ! Suc (2 * m))"
    by (simp only: dust_update_def add_0 dust_state.select_convs)
  show ?thesis
  proof (cases "out_of_shell center (dust ! (2 * m))")
    case True
    with visit obtain j where
      p: "space_dust (dust_update rnd center dust calls) ! (2 * m)
            = add3 center (Vec3 (rnd j) (rnd (j + 1)) (rnd (j + 2)))"
      and q: "space_dust (dust_update rnd center dust calls) ! Suc (2 * m)
            = space_dust (dust_update rnd center dust calls) ! (2 * m)"
      by auto
    have "length2 (sub3 (space_dust (dust_update rnd center dust calls) ! (2 * m)) center)
            \<le> 3 * (maxDustDist * maxDustDist)"
      unfolding p by (rule respawn_distance [OF assms(3)])
    with True p q show ?thesis
      by (auto simp: Let_def)
  next
    case False
    with visit have
      p: "space_dust (dust_update rnd center dust calls) ! (2 * m) = dust ! (2 * m)"
      and q: "space_dust (dust_update rnd center dust calls) ! Suc (2 * m) = dust ! Suc (2 * m)"
      by auto
    from in_shell_bounds [OF False] False p q show ?thesis
      by (simp add: Let_def)
  qed
qed

theorem dust_update_visited_pair_witness:
  "length [Vec3 0 0 0, Vec3 0 0 0] = 2 * 1 \<and> (0::nat) < 1
   \<and> (\<forall>k. - maxDustDist \<le> (\<lambda>k. 500) k \<and> (\<lambda>k. 500) k \<le> maxDustDist)
   \<and> out_of_shell (Vec3 0 0 0) ([Vec3 0 0 0, Vec3 0 0 0] ! (2 * 0))
   \<and> space_dust (dust_update (\<lambda>k. 500) (Vec3 0 0 0) [Vec3 0 0 0, Vec3 0 0 0] 0) ! (2 * 0 + 1)
       = space_dust (dust_update (\<lambda>k. 500) (Vec3 0 0 0) [Vec3 0 0 0, Vec3 0 0 0] 0) ! (2 * 0)
   \<and> length2 (sub3 (space_dust (dust_update (\<lambda>k. 500) (Vec3 0 0 0) [Vec3 0 0 0, Vec3 0 0 0] 0) ! (2 * 0))
         (Vec3 0 0 0)) \<le> 3 * (maxDustDist * maxDustDist)"
proof -
  have len: "length [Vec3 0 0 0, Vec3 0 0 0] = 2 * 1" by simp
  have m: "(0::nat) < 1" by simp
  have rnd: "\<forall>k. - maxDustDist \<le> (\<lambda>k. 500) k \<and> (\<lambda>k. 500) k \<le> maxDustDist"
    by (simp add: maxDustDist_def)
  have out: "out_of_shell (Vec3 0 0 0) ([Vec3 0 0 0, Vec3 0 0 0] ! (2 * 0))"
    by (simp add: out_of_shell_def sub3_def length2_def minDustDist_def maxDustDist_def)
  show ?thesis
    using dust_update_visited_pair [OF len m rnd, where center = "Vec3 0 0 0" and calls = 0]
      len rnd out
    by (simp add: Let_def add3_def sub3_def length2_def maxDustDist_def)
qed

text \<open>
  C1, as stated, fails on the first frame of a ship at the origin: the array starts zeroed,
  the pair is respawned, and with all three draws at 500 it lands on the corner of the
  cube, at squared distance 750000 from the centre, outside the shell when the pass ends.
\<close>

theorem dust_respawn_outside_shell:
  "length2 (sub3 (space_dust (dust_update (\<lambda>k. 500) (Vec3 0 0 0) [Vec3 0 0 0, Vec3 0 0 0] 0) ! 0)
      (Vec3 0 0 0)) = 750000
   \<and> out_of_shell (Vec3 0 0 0)
        (space_dust (dust_update (\<lambda>k. 500) (Vec3 0 0 0) [Vec3 0 0 0, Vec3 0 0 0] 0) ! 0)"
proof -
  have run: "dust_update (\<lambda>k. 500) (Vec3 0 0 0) [Vec3 0 0 0, Vec3 0 0 0] 0
      = \<lparr>space_dust = [Vec3 500 500 500, Vec3 500 500 500], update_required = True,
         random_calls = 3\<rparr>"
    by (simp add: dust_update_def dust_loop.simps dust_step_def out_of_shell_def sub3_def add3_def
        length2_def maxDustDist_def minDustDist_def Let_def)
  show ?thesis
    by (simp add: run out_of_shell_def sub3_def length2_def maxDustDist_def minDustDist_def)
qed

subsection \<open>The projector\<close>

lemma view_origin:
  "make_view (Vec3 0 0 0) 0 0 = Mat4 (Vec4 0 0 (-1) 0) (Vec4 1 0 0 0) (Vec4 0 1 0 0) (Vec4 0 0 0 1)"
  by (simp add: make_view_def glm_rotate_def glm_radians_def glm_normalize_def length2_def
      identity4_def add4_def scale4_def glm_scale_def glm_translate_def neg3_def Let_def)

lemma projection_60_800_600:
  "make_projection 60 (Vec2 800 600) =
     Mat4 (Vec4 (3 * sqrt 3 / 4) 0 0 0) (Vec4 0 (sqrt 3) 0 0)
          (Vec4 0 0 (- 25001 / 24999) (-1)) (Vec4 0 0 (- 50000 / 24999) 0)"
  by (simp add: make_projection_def glm_perspective_def glm_radians_def Let_def tan_30)

text \<open>
  C5. \<^verbatim>\<open>worldToScreen\<close> computes what the specification words: view transform,
  projection, division by \<open>w\<close>, [-1, 1] to [0, 1] with the vertical axis flipped, scaling
  into the rectangle. Its third component is the negated z of the point in camera space,
  hence positive exactly when the point is in front of the camera (negative z in camera
  space), and is not taken from the divided coordinates. The function is a function of
  its argument and of the four members it reads; it writes nothing, which the embedding
  has as a function with no state in its result.
\<close>

theorem worldToScreen_pipeline:
  "worldToScreen vp world = worldToScreen_spec vp world
   \<and> sz (worldToScreen vp world)
       = - v4z (mat_vec (view_matrix vp) (Vec4 (v3x world) (v3y world) (v3z world) 1))
   \<and> (0 < sz (worldToScreen vp world))
       = (v4z (mat_vec (view_matrix vp) (Vec4 (v3x world) (v3y world) (v3z world) 1)) < 0)
   \<and> worldToScreen vp world
       = worldToScreen \<lparr>view_matrix = view_matrix vp, projection_matrix = projection_matrix vp,
           rect_position = rect_position vp, rect_size = rect_size vp\<rparr> world"
proof -
  have eq: "worldToScreen vp world = worldToScreen_spec vp world"
    by (simp add: worldToScreen_def worldToScreen_spec_def Let_def ndc_to_unit_def
        option.map_comp comp_def algebra_simps add_divide_distrib diff_divide_distrib)
  have depth: "sz (worldToScreen vp world)
       = - v4z (mat_vec (view_matrix vp) (Vec4 (v3x world) (v3y world) (v3z world) 1))"
    by (simp add: worldToScreen_def Let_def)
  have reads: "worldToScreen vp world
       = worldToScreen \<lparr>view_matrix = view_matrix vp, projection_matrix = projection_matrix vp,
           rect_position = rect_position vp, rect_size = rect_size vp\<rparr> world"
    by (simp add: worldToScreen_def)
  from eq depth reads show ?thesis by simp
qed

text \<open>The camera members after a frame that was not skipped.\<close>

lemma onDraw_camera:
  assumes "v2x (rect_size fr) \<noteq> 0"
  shows "view_matrix (onDraw ext fr)
           = make_view (camera_position fr) (camera_yaw fr) (camera_pitch fr)"
    and "projection_matrix (onDraw ext fr) = make_projection (camera_fov_pref fr) (rect_size fr)"
    and "rect_position (onDraw ext fr) = rect_position fr"
    and "rect_size (onDraw ext fr) = rect_size fr"
  using assms by (simp_all add: onDraw_def set_camera_def Let_def split_beta)

text \<open>
  C2, as the code has it. The view matrix of lines 176-182 turns by \<open>-(yaw + 90)\<close> degrees
  about the vertical axis, so at yaw 0 the camera looks along the world's x axis: camera
  space is \<open>(y, z, -x)\<close>. After a frame drawn with the camera at the origin, yaw 0,
  pitch 0, a field of view of 60 degrees and a rectangle of 800 by 600, the world point
  (1000, 0, 0) projects to the centre of the rectangle with depth 1000.
\<close>

theorem forward_point_projects_to_center:
  assumes "camera_position fr = Vec3 0 0 0" and "camera_yaw fr = 0" and "camera_pitch fr = 0"
    and "camera_fov_pref fr = 60" and "rect_size fr = Vec2 800 600"
  shows "worldToScreen (onDraw ext fr) (Vec3 1000 0 0)
           = Screen3 (Some (v2x (rect_position fr) + 400)) (Some (v2y (rect_position fr) + 300)) 1000"
proof -
  have "v2x (rect_size fr) \<noteq> 0" using assms(5) by simp
  note cam = onDraw_camera [OF this, of ext]
  show ?thesis
    by (simp add: worldToScreen_def cam assms view_origin projection_60_800_600 mat_vec_def
        add4_def scale4_def fdiv_def Let_def)
qed

theorem forward_point_projects_to_center_witness:
  "camera_position (empty_scene (Vec2 800 600)) = Vec3 0 0 0
   \<and> camera_yaw (empty_scene (Vec2 800 600)) = 0
   \<and> camera_pitch (empty_scene (Vec2 800 600)) = 0
   \<and> camera_fov_pref (empty_scene (Vec2 800 600)) = 60
   \<and> rect_size (empty_scene (Vec2 800 600)) = Vec2 800 600
   \<and> worldToScreen (onDraw plain_library (empty_scene (Vec2 800 600))) (Vec3 1000 0 0)
       = Screen3 (Some 400) (Some 300) 1000"
proof -
  have h: "camera_position (empty_scene (Vec2 800 600)) = Vec3 0 0 0"
    "camera_yaw (empty_scene (Vec2 800 600)) = 0"
    "camera_pitch (empty_scene (Vec2 800 600)) = 0"
    "camera_fov_pref (empty_scene (Vec2 800 600)) = 60"
    "rect_size (empty_scene (Vec2 800 600)) = Vec2 800 600"
    and p: "rect_position (empty_scene (Vec2 800 600)) = Vec2 0 0"
    by (simp_all add: empty_scene_def)
  from forward_point_projects_to_center [OF h, of plain_library] h p
  show ?thesis by simp
qed

text \<open>
  C2, as stated, fails: the world point (0, 1000, 0) lies exactly to the side of that
  camera. Its depth is 0, not positive, the divisor \<open>w\<close> is 0, and the screen coordinates
  are not numbers, let alone the centre. (With the rounding of
  \<^verbatim>\<open>glm::radians(90.0f)\<close> the divisor is a tiny number instead and the point lands
  far outside the rectangle.)
\<close>

theorem side_point_not_at_center:
  "worldToScreen (onDraw plain_library (empty_scene (Vec2 800 600))) (Vec3 0 1000 0)
     = Screen3 None None 0"
proof -
  have size: "rect_size (empty_scene (Vec2 800 600)) = Vec2 800 600"
    and cam: "camera_position (empty_scene (Vec2 800 600)) = Vec3 0 0 0"
      "camera_yaw (empty_scene (Vec2 800 600)) = 0"
      "camera_pitch (empty_scene (Vec2 800 600)) = 0"
      "camera_fov_pref (empty_scene (Vec2 800 600)) = 60"
    by (simp_all add: empty_scene_def)
  have "v2x (rect_size (empty_scene (Vec2 800 600))) \<noteq> 0" by (simp add: size)
  note m = onDraw_camera [OF this, of plain_library]
  show ?thesis
    by (simp add: worldToScreen_def m size cam view_origin projection_60_800_600 mat_vec_def
        add4_def scale4_def fdiv_def Let_def)
qed

subsection \<open>Callsigns\<close>

lemma u8_cast_floor:
  assumes "0 \<le> r" and "r < 256"
  shows "uint (u8_cast r) = \<lfloor>r\<rfloor>"
proof -
  have "0 \<le> \<lfloor>r\<rfloor>" using assms(1) by simp
  moreover have "\<lfloor>r\<rfloor> < 256" using assms(2) by (simp add: floor_less_iff)
  ultimately show ?thesis
    using assms(1) by (simp add: u8_cast_def uint_word_of_int take_bit_int_eq_self)
qed

lemma draw_callsign_cases:
  "draw_callsign vp my_ship (e, callsign, tr) =
     (let p = worldToScreen vp (callsign_anchor e tr)
      in if Some (ent_id e) = my_ship \<or> sz p < 0 \<or> 10000 < sz p then []
         else [DrawText (sx p) (sy p) (Text callsign)
                 (20 * (1 - sz p / 10000)) (u8_cast (128 * (1 - sz p / 10000)))])"
  by (simp add: draw_callsign_def callsign_anchor_def Let_def)

lemma origin_camera_project:
  "worldToScreen origin_camera (Vec3 x y z) =
     Screen3 (map_option (\<lambda>v. 800 * (v * 0.5 + 0.5)) (fdiv (3 * sqrt 3 / 4 * y) x))
             (map_option (\<lambda>v. 600 * (1 - (v * 0.5 + 0.5))) (fdiv (sqrt 3 * z) x)) x"
  by (simp add: origin_camera_def view_origin projection_60_800_600 worldToScreen_def mat_vec_def
      add4_def scale4_def Let_def option.map_comp comp_def)

text \<open>
  C6, as the code has it. A callsign whose projected depth \<open>d\<close> is negative or above 10000
  is not drawn. A drawn label has \<open>0 \<le> d \<le> 10000\<close>, text size \<open>20 * (1 - d / 10000)\<close>, and
  as alpha the \<^verbatim>\<open>glm::u8\<close> that \<open>128 * (1 - d / 10000)\<close> converts to, which is its integer
  part: 128 at depth 0, 0 at depth 10000.
\<close>

theorem callsign_fade:
  "(let d = sz (worldToScreen vp (callsign_anchor e tr));
        factor = 1 - d / 10000
    in (d < 0 \<or> 10000 < d \<longrightarrow> draw_callsign vp my_ship (e, callsign, tr) = [])
       \<and> (\<forall>ev \<in> set (draw_callsign vp my_ship (e, callsign, tr)).
            0 \<le> d \<and> d \<le> 10000
            \<and> (\<exists>px py alpha.
                  ev = DrawText px py (Text callsign) (20 * factor) alpha
                  \<and> uint alpha = \<lfloor>128 * factor\<rfloor>
                  \<and> (d = 0 \<longrightarrow> alpha = 128)
                  \<and> (d = 10000 \<longrightarrow> alpha = 0))))"
proof -
  let ?d = "sz (worldToScreen vp (callsign_anchor e tr))"
  have alpha: "uint (u8_cast (128 * (1 - ?d / 10000))) = \<lfloor>128 * (1 - ?d / 10000)\<rfloor>"
    if "0 \<le> ?d" "?d \<le> 10000"
  proof (rule u8_cast_floor)
    show "0 \<le> 128 * (1 - ?d / 10000)" using that by simp
    show "128 * (1 - ?d / 10000) < 256" using that by simp
  qed
  have ends: "u8_cast (128 * (1 - 0 / 10000)) = 128" "u8_cast (128 * (1 - 10000 / 10000)) = 0"
    by (simp_all add: u8_cast_def)
  show ?thesis
    using alpha ends
    by (auto simp: draw_callsign_cases Let_def not_less)
qed


theorem callsign_fade_witness:
  "(\<exists>px py alpha.
      hd (draw_callsign origin_camera None
            (bare_entity 7, ''A'', \<lparr>t_position = Vec2 1000 0, t_rotation = 0\<rparr>))
        = DrawText px py (Text ''A'') 18 alpha \<and> uint alpha = 115)
   \<and> draw_callsign origin_camera None
        (bare_entity 7, ''A'', \<lparr>t_position = Vec2 1000 0, t_rotation = 0\<rparr>) \<noteq> []
   \<and> draw_callsign origin_camera None
        (bare_entity 8, ''B'', \<lparr>t_position = Vec2 10001 0, t_rotation = 0\<rparr>) = []"
proof -
  let ?a = "draw_callsign origin_camera None
        (bare_entity 7, ''A'', \<lparr>t_position = Vec2 1000 0, t_rotation = 0\<rparr>)"
  have d1: "sz (worldToScreen origin_camera
      (callsign_anchor (bare_entity 7) \<lparr>t_position = Vec2 1000 0, t_rotation = 0\<rparr>)) = 1000"
    by (simp add: callsign_anchor_def bare_entity_def origin_camera_project)
  have d2: "sz (worldToScreen origin_camera
      (callsign_anchor (bare_entity 8) \<lparr>t_position = Vec2 10001 0, t_rotation = 0\<rparr>)) = 10001"
    by (simp add: callsign_anchor_def bare_entity_def origin_camera_project)
  have f: "\<lfloor>128 * (1 - 1000 / 10000 :: real)\<rfloor> = 115" by simp
  have ne: "?a \<noteq> []"
    by (simp add: draw_callsign_cases d1 Let_def)
  then have hd: "hd ?a \<in> set ?a" by simp
  have far: "draw_callsign origin_camera None
        (bare_entity 8, ''B'', \<lparr>t_position = Vec2 10001 0, t_rotation = 0\<rparr>) = []"
    using callsign_fade [of origin_camera "bare_entity 8"
        "\<lparr>t_position = Vec2 10001 0, t_rotation = 0\<rparr>" None "''B''"]
    by (simp add: d2 Let_def)
  have "\<exists>px py alpha. hd ?a = DrawText px py (Text ''A'') 18 alpha \<and> uint alpha = 115"
    using callsign_fade [of origin_camera "bare_entity 7"
        "\<lparr>t_position = Vec2 1000 0, t_rotation = 0\<rparr>" None "''A''"] hd
    by (simp add: d1 f Let_def)
  with ne far show ?thesis by simp
qed

text \<open>
  C6, as stated, fails on the alpha: a label at depth 1000 is drawn with alpha 115, while
  \<open>128 * (1 - 1000 / 10000)\<close> is 115.2. The colour is a \<^verbatim>\<open>glm::u8vec4\<close>; its channels
  hold whole numbers.
\<close>

theorem callsign_alpha_truncated:
  "draw_callsign origin_camera None
     (bare_entity 7, ''A'', \<lparr>t_position = Vec2 1000 0, t_rotation = 0\<rparr>)
     = [DrawText (Some 400) (Some (300 - 90 * sqrt 3)) (Text ''A'') 18 115]
   \<and> uint (115 :: 8 word) = 115
   \<and> (115 :: real) \<noteq> 128 * (1 - 1000 / 10000)"
proof -
  have "draw_callsign origin_camera None
     (bare_entity 7, ''A'', \<lparr>t_position = Vec2 1000 0, t_rotation = 0\<rparr>)
     = [DrawText (Some 400) (Some (300 - 90 * sqrt 3)) (Text ''A'') 18 115]"
    by (simp add: draw_callsign_def bare_entity_def origin_camera_project fdiv_def u8_cast_def
        Let_def algebra_simps)
  moreover have "uint (115 :: 8 word) = 115" by simp
  moreover have "(115 :: real) \<noteq> 128 * (1 - 1000 / 10000)" by simp
  ultimately show ?thesis by simp
qed

text \<open>
  C10. The callsign pass is, entity by entity of its query, what follows. The world point
  handed to \<^verbatim>\<open>worldToScreen\<close> has the entity's position as its first two coordinates
  and the entity's radius as its third: the x component of the size of its physics
  component when it has one, and 300 otherwise. An entity that is the player's ship, or
  whose point projects to a depth below 0 or above 10000, gets no label; every other
  entity, with or without physics, gets one label, at the screen position of that point.
\<close>

theorem callsign_projected_at_radius:
  "draw_callsigns vp my_ship es =
     concat (map (\<lambda>(e, callsign, tr).
                    let p = worldToScreen vp (callsign_anchor e tr)
                    in if Some (ent_id e) = my_ship \<or> sz p < 0 \<or> 10000 < sz p then []
                       else [DrawText (sx p) (sy p) (Text callsign)
                               (20 * (1 - sz p / 10000)) (u8_cast (128 * (1 - sz p / 10000)))])
                 (callsign_query es))
   \<and> callsign_anchor e tr =
       Vec3 (v2x (t_position tr)) (v2y (t_position tr))
         (case c_physics e of Some ph \<Rightarrow> v2x (ph_size ph) | None \<Rightarrow> 300)"
proof -
  have one: "draw_callsign vp my_ship q =
      (case q of (e, callsign, tr) \<Rightarrow>
         let p = worldToScreen vp (callsign_anchor e tr)
         in if Some (ent_id e) = my_ship \<or> sz p < 0 \<or> 10000 < sz p then []
            else [DrawText (sx p) (sy p) (Text callsign)
                    (20 * (1 - sz p / 10000)) (u8_cast (128 * (1 - sz p / 10000)))])" for q
    by (cases q) (simp add: draw_callsign_def callsign_anchor_def Let_def)
  have "draw_callsigns vp my_ship es =
     concat (map (\<lambda>(e, callsign, tr).
                    let p = worldToScreen vp (callsign_anchor e tr)
                    in if Some (ent_id e) = my_ship \<or> sz p < 0 \<or> 10000 < sz p then []
                       else [DrawText (sx p) (sy p) (Text callsign)
                               (20 * (1 - sz p / 10000)) (u8_cast (128 * (1 - sz p / 10000)))])
                 (callsign_query es))"
    unfolding draw_callsigns_def
    by (rule arg_cong [where f = concat], rule map_cong [OF refl]) (simp only: one)
  moreover have "callsign_anchor e tr =
       Vec3 (v2x (t_position tr)) (v2y (t_position tr))
         (case c_physics e of Some ph \<Rightarrow> v2x (ph_size ph) | None \<Rightarrow> 300)"
    by (simp add: callsign_anchor_def)
  ultimately show ?thesis by simp
qed

text \<open>
  Two entities on the same ground position, 1000 ahead of the camera: one with a physics
  size of 50 by 80, one without physics. Their labels are drawn at different heights on
  the screen, that of the first from a point 50 above the ground, that of the second from
  a point 300 above it.
\<close>

theorem callsign_projected_at_radius_witness:
  "draw_callsigns origin_camera None
     [(bare_entity 7)\<lparr>c_transform := Some \<lparr>t_position = Vec2 1000 0, t_rotation = 0\<rparr>,
                      c_physics := Some \<lparr>ph_velocity = Vec2 0 0, ph_size = Vec2 50 80\<rparr>,
                      c_callsign := Some ''A''\<rparr>,
      (bare_entity 8)\<lparr>c_transform := Some \<lparr>t_position = Vec2 1000 0, t_rotation = 0\<rparr>,
                      c_callsign := Some ''B''\<rparr>]
     = [DrawText (Some 400) (Some (300 - 15 * sqrt 3)) (Text ''A'') 18 115,
        DrawText (Some 400) (Some (300 - 90 * sqrt 3)) (Text ''B'') 18 115]"
proof -
  let ?a = "(bare_entity 7)\<lparr>c_transform := Some \<lparr>t_position = Vec2 1000 0, t_rotation = 0\<rparr>,
                      c_physics := Some \<lparr>ph_velocity = Vec2 0 0, ph_size = Vec2 50 80\<rparr>,
                      c_callsign := Some ''A''\<rparr>"
  let ?b = "(bare_entity 8)\<lparr>c_transform := Some \<lparr>t_position = Vec2 1000 0, t_rotation = 0\<rparr>,
                      c_callsign := Some ''B''\<rparr>"
  let ?tr = "\<lparr>t_position = Vec2 1000 0, t_rotation = 0\<rparr>"
  have query: "callsign_query [?a, ?b] = [(?a, ''A'', ?tr), (?b, ''B'', ?tr)]"
    by (simp add: callsign_query_def List.map_filter_simps bare_entity_def)
  have anchors: "callsign_anchor ?a ?tr = Vec3 1000 0 50" "callsign_anchor ?b ?tr = Vec3 1000 0 300"
    by (simp_all add: callsign_anchor_def bare_entity_def)
  have ids: "ent_id ?a = 7" "ent_id ?b = 8"
    by (simp_all add: bare_entity_def)
  have alpha: "u8_cast (576 / 5) = 115"
    by (simp add: u8_cast_def)
  from callsign_projected_at_radius [of origin_camera None "[?a, ?b]"]
  have "draw_callsigns origin_camera None [?a, ?b] =
     concat (map (\<lambda>(e, callsign, tr).
                    let p = worldToScreen origin_camera (callsign_anchor e tr)
                    in if Some (ent_id e) = None \<or> sz p < 0 \<or> 10000 < sz p then []
                       else [DrawText (sx p) (sy p) (Text callsign)
                               (20 * (1 - sz p / 10000)) (u8_cast (128 * (1 - sz p / 10000)))])
                 (callsign_query [?a, ?b]))"
    by (rule conjunct1)
  then show ?thesis
    by (simp add: query anchors origin_camera_project fdiv_def alpha Let_def algebra_simps)
qed

subsection \<open>Engine particles\<close>

lemma emit_entity_cases:
  "emit_entity rot now ee tr impulse =
     (if actual impulse \<noteq> 0 \<and> now - last_engine_particle_time ee > 0.1
      then (map (\<lambda>ed.
                  let pos2d = add2 (t_position tr)
                                (rot (Vec2 (v3x (ed_position ed)) (v3y (ed_position ed))) (t_rotation tr));
                      pos3d = Vec3 (v2x pos2d) (v2y pos2d) (v3z (ed_position ed))
                  in ParticleSpawn pos3d pos3d (ed_color ed) (ed_color ed)
                       (ed_scale ed * \<bar>actual impulse\<bar>) 0 5)
                (emitters ee),
            ee\<lparr>last_engine_particle_time := now\<rparr>)
      else ([], ee))"
  by (simp add: emit_entity_def Let_def)

lemma emit_entity_stamp:
  "last_engine_particle_time (snd (emit_entity rot now ee tr impulse))
     = (if actual impulse \<noteq> 0 \<and> now - last_engine_particle_time ee > 0.1
        then now else last_engine_particle_time ee)"
  by (simp add: emit_entity_cases)

lemma emit_entity_spawned:
  "fst (emit_entity rot now ee tr impulse) \<noteq> [] \<Longrightarrow>
     actual impulse \<noteq> 0 \<and> now - last_engine_particle_time ee > 0.1"
  by (simp add: emit_entity_cases split: if_splits)

lemma emit_frames_after_stamp:
  "(t, evs) \<in> set (emit_frames rot ee frames) \<Longrightarrow> evs \<noteq> [] \<Longrightarrow>
     t - last_engine_particle_time ee > 0.1"
proof (induction frames arbitrary: ee)
  case Nil
  then show ?case by simp
next
  case (Cons f frames)
  obtain now tr impulse where f: "f = (now, tr, impulse)"
    by (cases f) auto
  let ?r = "emit_entity rot now ee tr impulse"
  from Cons.prems(1) consider
      (head) "(t, evs) = (now, fst ?r)"
    | (tail) "(t, evs) \<in> set (emit_frames rot (snd ?r) frames)"
    by (auto simp: f split_beta)
  then show ?case
  proof cases
    case head
    with Cons.prems(2) emit_entity_spawned [of rot now ee tr impulse]
    show ?thesis by simp
  next
    case tail
    from Cons.IH [OF tail Cons.prems(2)]
    have "t - last_engine_particle_time (snd ?r) > 0.1" .
    then show ?thesis
      by (simp add: emit_entity_stamp split: if_splits)
  qed
qed

lemma emission_times_apart:
  "sorted_wrt (\<lambda>a b. 0.1 < b - a) (emission_times (emit_frames rot ee frames))"
proof (induction frames arbitrary: ee)
  case Nil
  then show ?case by (simp add: emission_times_def)
next
  case (Cons f frames)
  obtain now tr impulse where f: "f = (now, tr, impulse)"
    by (cases f) auto
  let ?r = "emit_entity rot now ee tr impulse"
  have rest: "sorted_wrt (\<lambda>a b. 0.1 < b - a) (emission_times (emit_frames rot (snd ?r) frames))"
    by (rule Cons.IH)
  show ?case
  proof (cases "fst ?r = []")
    case True
    then have "emission_times (emit_frames rot ee (f # frames))
                 = emission_times (emit_frames rot (snd ?r) frames)"
      by (simp add: f emission_times_def split_beta)
    with rest show ?thesis by simp
  next
    case False
    then have stamp: "last_engine_particle_time (snd ?r) = now"
      using emit_entity_spawned [OF False] by (simp add: emit_entity_stamp)
    have later: "0.1 < t - now" if "t \<in> set (emission_times (emit_frames rot (snd ?r) frames))" for t
    proof -
      from that obtain evs where "(t, evs) \<in> set (emit_frames rot (snd ?r) frames)" "evs \<noteq> []"
        by (auto simp: emission_times_def)
      from emit_frames_after_stamp [OF this] show ?thesis
        by (simp add: stamp)
    qed
    have "emission_times (emit_frames rot ee (f # frames))
            = now # emission_times (emit_frames rot (snd ?r) frames)"
      using False by (simp add: f emission_times_def split_beta)
    with rest later show ?thesis by simp
  qed
qed

lemma emit_pass_entities:
  "snd (emit_pass rot now es) =
     map (\<lambda>e. case (c_engine_emitter e, c_transform e, c_impulse e) of
                 (Some ee, Some tr, Some impulse) \<Rightarrow>
                   e\<lparr>c_engine_emitter := Some (snd (emit_entity rot now ee tr impulse))\<rparr>
               | _ \<Rightarrow> e) es"
  by (induction es) (auto simp: split_beta split: option.splits)

text \<open>
  C7. For an entity of the engine-particle query: with throttle 0 nothing is spawned and
  nothing is written, whatever the elapsed time; with a nonzero throttle and more than 0.1
  seconds since the entity's last emission, one particle per emitter point is spawned
  (start and end position equal, so it does not move; size the emitter's scale times the
  absolute throttle; last argument, the lifetime, 5) and the entity's timestamp becomes the
  elapsed time; otherwise nothing is spawned and nothing is written. Over any run of
  frames of one entity, any two frames that spawned particles are more than 0.1 seconds
  apart. The pass treats every entity of the list on its own, with its own timestamp.
\<close>

theorem engine_emission:
  "(case emit_entity rot now ee tr impulse of (evs, ee') \<Rightarrow>
      (actual impulse = 0 \<longrightarrow> evs = [] \<and> ee' = ee)
      \<and> (now - last_engine_particle_time ee \<le> 0.1 \<longrightarrow> evs = [] \<and> ee' = ee)
      \<and> (actual impulse \<noteq> 0 \<and> now - last_engine_particle_time ee > 0.1 \<longrightarrow>
            length evs = length (emitters ee)
            \<and> ee' = ee\<lparr>last_engine_particle_time := now\<rparr>
            \<and> (\<forall>i < length evs. \<exists>pos.
                  evs ! i = ParticleSpawn pos pos (ed_color (emitters ee ! i))
                              (ed_color (emitters ee ! i))
                              (ed_scale (emitters ee ! i) * \<bar>actual impulse\<bar>) 0 5)))
   \<and> sorted_wrt (\<lambda>a b. 0.1 < b - a) (emission_times (emit_frames rot ee frames))
   \<and> snd (emit_pass rot now es) =
       map (\<lambda>e. case (c_engine_emitter e, c_transform e, c_impulse e) of
                   (Some ee, Some tr, Some impulse) \<Rightarrow>
                     e\<lparr>c_engine_emitter := Some (snd (emit_entity rot now ee tr impulse))\<rparr>
                 | _ \<Rightarrow> e) es"
proof -
  have step: "(case emit_entity rot now ee tr impulse of (evs, ee') \<Rightarrow>
      (actual impulse = 0 \<longrightarrow> evs = [] \<and> ee' = ee)
      \<and> (now - last_engine_particle_time ee \<le> 0.1 \<longrightarrow> evs = [] \<and> ee' = ee)
      \<and> (actual impulse \<noteq> 0 \<and> now - last_engine_particle_time ee > 0.1 \<longrightarrow>
            length evs = length (emitters ee)
            \<and> ee' = ee\<lparr>last_engine_particle_time := now\<rparr>
            \<and> (\<forall>i < length evs. \<exists>pos.
                  evs ! i = ParticleSpawn pos pos (ed_color (emitters ee ! i))
                              (ed_color (emitters ee ! i))
                              (ed_scale (emitters ee ! i) * \<bar>actual impulse\<bar>) 0 5)))"
    by (simp add: emit_entity_cases Let_def)
  from step emission_times_apart [of rot ee frames] emit_pass_entities [of rot now es]
  show ?thesis by simp
qed


theorem engine_emission_witness:
  "emit_entity (\<lambda>v a. v) 0.2
     \<lparr>last_engine_particle_time = 0,
      emitters = [\<lparr>ed_position = Vec3 (- 10) 0 2, ed_color = Vec3 1 0.5 0, ed_scale = 3\<rparr>]\<rparr>
     \<lparr>t_position = Vec2 100 200, t_rotation = 0\<rparr> \<lparr>actual = - 0.5\<rparr>
   = ([ParticleSpawn (Vec3 90 200 2) (Vec3 90 200 2) (Vec3 1 0.5 0) (Vec3 1 0.5 0) 1.5 0 5],
      \<lparr>last_engine_particle_time = 0.2,
       emitters = [\<lparr>ed_position = Vec3 (- 10) 0 2, ed_color = Vec3 1 0.5 0, ed_scale = 3\<rparr>]\<rparr>)
   \<and> fst (emit_entity (\<lambda>v a. v) 7
       \<lparr>last_engine_particle_time = 0,
        emitters = [\<lparr>ed_position = Vec3 (- 10) 0 2, ed_color = Vec3 1 0.5 0, ed_scale = 3\<rparr>]\<rparr>
       \<lparr>t_position = Vec2 100 200, t_rotation = 0\<rparr> \<lparr>actual = 0\<rparr>) = []
   \<and> emission_times (emit_frames (\<lambda>v a. v)
       \<lparr>last_engine_particle_time = 0,
        emitters = [\<lparr>ed_position = Vec3 (- 10) 0 2, ed_color = Vec3 1 0.5 0, ed_scale = 3\<rparr>]\<rparr>
       [(0.05, \<lparr>t_position = Vec2 100 200, t_rotation = 0\<rparr>, \<lparr>actual = - 0.5\<rparr>),
        (0.2, \<lparr>t_position = Vec2 100 200, t_rotation = 0\<rparr>, \<lparr>actual = - 0.5\<rparr>),
        (0.25, \<lparr>t_position = Vec2 100 200, t_rotation = 0\<rparr>, \<lparr>actual = - 0.5\<rparr>),
        (0.35, \<lparr>t_position = Vec2 100 200, t_rotation = 0\<rparr>, \<lparr>actual = - 0.5\<rparr>),
        (0.5, \<lparr>t_position = Vec2 100 200, t_rotation = 0\<rparr>, \<lparr>actual = 0\<rparr>)]) = [0.2, 0.35]"
proof -
  let ?ee = "\<lparr>last_engine_particle_time = 0,
      emitters = [\<lparr>ed_position = Vec3 (- 10) 0 2, ed_color = Vec3 1 0.5 0, ed_scale = 3\<rparr>]\<rparr>"
  let ?tr = "\<lparr>t_position = Vec2 100 200, t_rotation = 0\<rparr>"
  have times: "emission_times (emit_frames (\<lambda>v a. v) ?ee
       [(0.05, ?tr, \<lparr>actual = - 0.5\<rparr>), (0.2, ?tr, \<lparr>actual = - 0.5\<rparr>),
        (0.25, ?tr, \<lparr>actual = - 0.5\<rparr>), (0.35, ?tr, \<lparr>actual = - 0.5\<rparr>),
        (0.5, ?tr, \<lparr>actual = 0\<rparr>)]) = [0.2, 0.35]"
    by (simp add: emission_times_def emit_entity_def add2_def Let_def)
  show ?thesis
    using engine_emission [where rot = "\<lambda>v a. v" and now = "0.2" and ee = ?ee and tr = ?tr
          and impulse = "\<lparr>actual = - 0.5\<rparr>" and frames = "[]"]
      engine_emission [where rot = "\<lambda>v a. v" and now = 7 and ee = ?ee and tr = ?tr
          and impulse = "\<lparr>actual = 0\<rparr>" and frames = "[]"]
      times
    by (simp add: emit_entity_def add2_def Let_def)
qed

subsection \<open>Skybox selection\<close>

text \<open>
  What the loop of lines 196-208 computes: it stops at the first zone of the query that
  has a skybox and whose outline contains the point \<^verbatim>\<open>pos\<close> of line 199, which is the
  zone's position minus the camera's.
\<close>

lemma select_skybox_find:
  "select_skybox inside_fn dist_fn cam skybox_name zs =
     (case find (\<lambda>(z, t). skybox z \<noteq> [] \<and> inside_fn (outline z) (sub2 (t_position t) cam)) zs of
        None \<Rightarrow> (skybox_name, 0)
      | Some (z, t) \<Rightarrow>
          (''skybox/'' @ skybox z,
           if skybox_fade_distance z \<le> 0 then 1
           else std_clamp (dist_fn (outline z) (sub2 (t_position t) cam) / skybox_fade_distance z) 0 1))"
proof (induction zs)
  case Nil
  show ?case by simp
next
  case (Cons zt zs)
  obtain z t where zt: "zt = (z, t)"
    by (cases zt) auto
  show ?case
  proof (cases "skybox z \<noteq> [] \<and> inside_fn (outline z) (sub2 (t_position t) cam)")
    case True
    then show ?thesis by (simp add: zt Let_def)
  next
    case False
    with Cons.IH show ?thesis by (auto simp: zt Let_def)
  qed
qed

lemma wedge_inside:
  "polygon_contains (outline (wedge_zone n f)) (Vec2 50 20)"
  "\<not> polygon_contains (outline (wedge_zone n f)) (Vec2 (- 50) (- 20))"
  "\<not> polygon_contains (outline (mirrored_wedge_zone n f)) (Vec2 50 20)"
  "polygon_contains (outline (mirrored_wedge_zone n f)) (Vec2 (- 50) (- 20))"
  by (simp_all add: polygon_contains_def wedge_zone_def mirrored_wedge_zone_def edge_crosses_def)

text \<open>The starbox is drawn with the names and the factor the loop selected.\<close>

lemma starbox_pass_draw:
  "DrawStarbox (global_skybox_name (default_skybox fr))
     (fst (select_skybox (insidePolygon ext) (distanceToEdge ext)
            (Vec2 (v3x (camera_position fr)) (v3y (camera_position fr)))
            (global_skybox_name (default_skybox fr)) (zone_query (entities fr))))
     (snd (select_skybox (insidePolygon ext) (distanceToEdge ext)
            (Vec2 (v3x (camera_position fr)) (v3y (camera_position fr)))
            (global_skybox_name (default_skybox fr)) (zone_query (entities fr))))
   \<in> set (fst (starbox_pass ext fr))"
  by (simp add: starbox_pass_def Let_def split_beta)

lemma onDraw_starbox:
  assumes "v2x (rect_size fr) \<noteq> 0"
  shows "DrawStarbox (global_skybox_name (default_skybox fr))
           (fst (select_skybox (insidePolygon ext) (distanceToEdge ext)
                  (Vec2 (v3x (camera_position fr)) (v3y (camera_position fr)))
                  (global_skybox_name (default_skybox fr)) (zone_query (entities fr))))
           (snd (select_skybox (insidePolygon ext) (distanceToEdge ext)
                  (Vec2 (v3x (camera_position fr)) (v3y (camera_position fr)))
                  (global_skybox_name (default_skybox fr)) (zone_query (entities fr))))
         \<in> set (events (onDraw ext fr))"
proof -
  have "set (fst (starbox_pass ext fr)) \<subseteq> set (events (onDraw ext fr))"
    by (simp only: onDraw_events [OF assms] set_append) blast
  with starbox_pass_draw [of fr ext] show ?thesis by blast
qed

text \<open>
  C3, evaluated on a frame. The point tested at line 200 is the zone's position minus the
  camera's: the camera's position relative to the zone, mirrored through the zone's
  centre. Two zones centred at the origin (so that their outlines are the same polygons
  in world coordinates), the wedge with skybox nebula first and the mirrored wedge with
  skybox void second, and the camera at (50, 20), inside the first and outside the
  second: the frame passes over the first zone and draws the starbox with the skybox of
  the second.
\<close>

theorem skybox_taken_from_zone_without_camera:
  "DrawStarbox ''skybox/default'' ''skybox/void'' 1
     \<in> set (events (onDraw plain_library
          ((empty_scene (Vec2 800 600))
             \<lparr>camera_position := Vec3 50 20 0,
              entities := [zone_entity 7 (wedge_zone ''nebula'' 0) (Vec2 0 0),
                           zone_entity 8 (mirrored_wedge_zone ''void'' 0) (Vec2 0 0)]\<rparr>)))
   \<and> camera_in_zone polygon_contains (Vec2 50 20)
        (wedge_zone ''nebula'' 0, \<lparr>t_position = Vec2 0 0, t_rotation = 0\<rparr>)
   \<and> \<not> camera_in_zone polygon_contains (Vec2 50 20)
        (mirrored_wedge_zone ''void'' 0, \<lparr>t_position = Vec2 0 0, t_rotation = 0\<rparr>)"
proof -
  let ?fr = "(empty_scene (Vec2 800 600))
             \<lparr>camera_position := Vec3 50 20 0,
              entities := [zone_entity 7 (wedge_zone ''nebula'' 0) (Vec2 0 0),
                           zone_entity 8 (mirrored_wedge_zone ''void'' 0) (Vec2 0 0)]\<rparr>"
  have width: "v2x (rect_size ?fr) \<noteq> 0"
    by (simp add: empty_scene_def)
  have query: "zone_query (entities ?fr)
      = [(wedge_zone ''nebula'' 0, \<lparr>t_position = Vec2 0 0, t_rotation = 0\<rparr>),
         (mirrored_wedge_zone ''void'' 0, \<lparr>t_position = Vec2 0 0, t_rotation = 0\<rparr>)]"
    by (simp add: zone_query_def zone_entity_def bare_entity_def List.map_filter_simps)
  have sel: "select_skybox polygon_contains (\<lambda>path pt. 0) (Vec2 50 20) ''skybox/default''
     [(wedge_zone ''nebula'' 0, \<lparr>t_position = Vec2 0 0, t_rotation = 0\<rparr>),
      (mirrored_wedge_zone ''void'' 0, \<lparr>t_position = Vec2 0 0, t_rotation = 0\<rparr>)]
     = (''skybox/void'', 1)"
    using wedge_inside [of "''nebula''" 0] wedge_inside [of "''void''" 0]
    by (simp add: sub2_def Let_def) (simp add: wedge_zone_def mirrored_wedge_zone_def)
  have cam: "Vec2 (v3x (camera_position ?fr)) (v3y (camera_position ?fr)) = Vec2 50 20"
    and name: "global_skybox_name (default_skybox ?fr) = ''skybox/default''"
    and lib: "insidePolygon plain_library = polygon_contains"
      "distanceToEdge plain_library = (\<lambda>path pt. 0)"
    by (simp_all add: empty_scene_def global_skybox_name_def plain_library_def)
  have "DrawStarbox ''skybox/default'' ''skybox/void'' 1 \<in> set (events (onDraw plain_library ?fr))"
    using onDraw_starbox [OF width, of plain_library]
    by (simp only: query cam name lib sel fst_conv snd_conv)
  moreover have "camera_in_zone polygon_contains (Vec2 50 20)
        (wedge_zone ''nebula'' 0, \<lparr>t_position = Vec2 0 0, t_rotation = 0\<rparr>)"
    and "\<not> camera_in_zone polygon_contains (Vec2 50 20)
        (mirrored_wedge_zone ''void'' 0, \<lparr>t_position = Vec2 0 0, t_rotation = 0\<rparr>)"
    using wedge_inside [of "''nebula''" 0] wedge_inside [of "''void''" 0]
    by (simp_all add: camera_in_zone_def sub2_def)
  ultimately show ?thesis by simp
qed

text \<open>
  C4, evaluated on a frame. One zone centred at the origin (wedge, skybox nebula, fade
  distance 0) and the camera at (50, 20), inside it: the loop finds no zone, and the
  starbox is drawn with the global skybox as the local one and blend factor 0, where a
  zone that contains the camera and has no fade distance gives factor 1. The cause is
  the mirrored point of line 199, as for C3.
\<close>

theorem skybox_blend_zero_inside_zone:
  "DrawStarbox ''skybox/default'' ''skybox/default'' 0
     \<in> set (events (onDraw plain_library
          ((empty_scene (Vec2 800 600))
             \<lparr>camera_position := Vec3 50 20 0,
              entities := [zone_entity 7 (wedge_zone ''nebula'' 0) (Vec2 0 0)]\<rparr>)))
   \<and> camera_in_zone polygon_contains (Vec2 50 20)
        (wedge_zone ''nebula'' 0, \<lparr>t_position = Vec2 0 0, t_rotation = 0\<rparr>)
   \<and> skybox_fade_distance (wedge_zone ''nebula'' 0) \<le> 0"
proof -
  let ?fr = "(empty_scene (Vec2 800 600))
             \<lparr>camera_position := Vec3 50 20 0,
              entities := [zone_entity 7 (wedge_zone ''nebula'' 0) (Vec2 0 0)]\<rparr>"
  have width: "v2x (rect_size ?fr) \<noteq> 0"
    by (simp add: empty_scene_def)
  have query: "zone_query (entities ?fr)
      = [(wedge_zone ''nebula'' 0, \<lparr>t_position = Vec2 0 0, t_rotation = 0\<rparr>)]"
    by (simp add: zone_query_def zone_entity_def bare_entity_def List.map_filter_simps)
  have sel: "select_skybox polygon_contains (\<lambda>path pt. 0) (Vec2 50 20) ''skybox/default''
     [(wedge_zone ''nebula'' 0, \<lparr>t_position = Vec2 0 0, t_rotation = 0\<rparr>)]
     = (''skybox/default'', 0)"
    using wedge_inside [of "''nebula''" 0]
    by (simp add: sub2_def Let_def)
  have cam: "Vec2 (v3x (camera_position ?fr)) (v3y (camera_position ?fr)) = Vec2 50 20"
    and name: "global_skybox_name (default_skybox ?fr) = ''skybox/default''"
    and lib: "insidePolygon plain_library = polygon_contains"
      "distanceToEdge plain_library = (\<lambda>path pt. 0)"
    by (simp_all add: empty_scene_def global_skybox_name_def plain_library_def)
  have "DrawStarbox ''skybox/default'' ''skybox/default'' 0
          \<in> set (events (onDraw plain_library ?fr))"
    using onDraw_starbox [OF width, of plain_library]
    by (simp only: query cam name lib sel fst_conv snd_conv)
  moreover have "camera_in_zone polygon_contains (Vec2 50 20)
        (wedge_zone ''nebula'' 0, \<lparr>t_position = Vec2 0 0, t_rotation = 0\<rparr>)"
    using wedge_inside [of "''nebula''" 0]
    by (simp add: camera_in_zone_def sub2_def)
  moreover have "skybox_fade_distance (wedge_zone ''nebula'' 0) \<le> 0"
    by (simp add: wedge_zone_def)
  ultimately show ?thesis by simp
qed

subsection \<open>The frame\<close>

text \<open>No pass but the space-dust pass writes the dust buffer.\<close>

lemma no_upload_get_cubemap: "filter is_upload (fst (get_cubemap name cache)) = []"
  by (simp add: get_cubemap_def is_upload_def)

lemma no_upload_frame_begin: "filter is_upload (frame_begin ship fr) = []"
  by (simp add: frame_begin_def is_upload_def split: option.splits)

lemma no_upload_starbox: "filter is_upload (fst (starbox_pass ext fr)) = []"
  by (simp add: starbox_pass_def Let_def split_beta no_upload_get_cubemap)
    (simp add: is_upload_def)

lemma no_upload_emit_entity: "filter is_upload (fst (emit_entity rot now ee tr impulse)) = []"
  by (simp add: emit_entity_cases is_upload_def Let_def filter_empty_conv)

lemma no_upload_emit_pass: "filter is_upload (fst (emit_pass rot now es)) = []"
  by (induction es) (auto simp: split_beta no_upload_emit_entity split: option.splits)

lemma no_upload_reticle: "filter is_upload (draw_reticle es ship) = []"
  by (simp add: draw_reticle_def is_upload_def Let_def split: option.splits)

lemma no_upload_overlay_state: "filter is_upload overlay_state = []"
  by (simp add: overlay_state_def is_upload_def)

lemma no_upload_callsigns: "filter is_upload (draw_callsigns vp my_ship es) = []"
  by (auto simp: draw_callsigns_def draw_callsign_cases is_upload_def Let_def filter_empty_conv
      split: if_splits)

lemma no_upload_headings: "filter is_upload (heading_loop from_angle vp tr angle) = []"
proof (induction from_angle vp tr angle rule: heading_loop.induct)
  case (1 from_angle vp tr angle)
  show ?case
  proof (cases "angle < 360")
    case True
    have rest: "filter is_upload (heading_loop from_angle vp tr (angle + 30)) = []"
      using 1 [OF True refl refl refl] .
    have drawn: "\<not> is_upload (DrawText px py l fs a)" for px py l fs a
      by (simp add: is_upload_def)
    show ?thesis
      using True by (subst heading_loop.simps) (simp add: Let_def rest drawn)
  next
    case False
    then show ?thesis by (subst heading_loop.simps) simp
  qed
qed

lemma gpu_positions_filter:
  "gpu_positions evs buffer = gpu_positions (filter is_upload evs) buffer"
  unfolding gpu_positions_def
  by (induction evs arbitrary: buffer) (auto simp: is_upload_def split: event.splits)

lemma drop_own_prefix: "drop (length xs) (xs @ ys) = ys"
  by simp

lemma frame_calls_events:
  "events (onDraw ext fr) = events fr @ frame_calls ext fr"
proof (cases "v2x (rect_size fr) = 0")
  case True
  then show ?thesis by (simp add: frame_calls_def onDraw_def)
next
  case False
  show ?thesis
    unfolding frame_calls_def
    by (simp only: onDraw_events [OF False] drop_own_prefix)
qed

lemma frame_uploads:
  assumes "v2x (rect_size fr) \<noteq> 0"
  shows "filter is_upload (frame_calls ext fr)
           = (case find_entity (entities fr) (my_spaceship fr) of
                Some e \<Rightarrow>
                  if show_spacedust fr
                  then filter is_upload
                         (fst (dust_pass (random ext) e (camera_position fr)
                                 (static_space_dust fr) (rng_calls fr)))
                  else []
              | None \<Rightarrow> [])"
proof -
  have calls: "frame_calls ext fr
      = frame_begin (find_entity (entities fr) (my_spaceship fr)) fr
             @ fst (starbox_pass ext fr)
             @ fst (emit_pass (rotateVec2 ext) (elapsed_time fr) (entities fr))
             @ [UpdateProjectionView (view_matrix (set_camera fr)),
                Render3D (v2x (rect_size fr) / v2y (rect_size fr)) (camera_fov_pref fr),
                ParticleRender (projection_matrix (set_camera fr)) (view_matrix (set_camera fr))]
             @ (case find_entity (entities fr) (my_spaceship fr) of
                  Some e \<Rightarrow>
                    if show_spacedust fr
                    then fst (dust_pass (random ext) e (camera_position fr)
                                (static_space_dust fr) (rng_calls fr))
                    else []
                | None \<Rightarrow> [])
             @ draw_reticle (entities (onDraw ext fr))
                 (find_entity (entities fr) (my_spaceship fr))
             @ overlay_state
             @ (if show_callsigns fr
                then draw_callsigns (set_camera fr) (my_spaceship fr) (entities (onDraw ext fr))
                else [])
             @ (case find_entity (entities fr) (my_spaceship fr) of
                  Some e \<Rightarrow>
                    if show_headings fr
                    then (case c_transform e of
                            Some t \<Rightarrow> heading_loop (vec2FromAngle ext) (set_camera fr) t 0
                          | None \<Rightarrow> [])
                    else []
                | None \<Rightarrow> [])
             @ [GlCall ''glViewport full'']"
    unfolding frame_calls_def
    by (simp only: onDraw_events [OF assms] drop_own_prefix)
  have scene: "filter is_upload [UpdateProjectionView v, Render3D a f, ParticleRender p v] = []"
    for v a f p
    by (simp add: is_upload_def)
  have last_call: "filter is_upload [GlCall ''glViewport full''] = []"
    by (simp add: is_upload_def)
  have overlays: "filter is_upload
      (if show_callsigns fr
       then draw_callsigns (set_camera fr) (my_spaceship fr) (entities (onDraw ext fr))
       else []) = []"
    by (cases "show_callsigns fr") (simp_all add: no_upload_callsigns)
  have headings: "filter is_upload
      (case find_entity (entities fr) (my_spaceship fr) of
         Some e \<Rightarrow>
           if show_headings fr
           then (case c_transform e of
                   Some t \<Rightarrow> heading_loop (vec2FromAngle ext) (set_camera fr) t 0
                 | None \<Rightarrow> [])
           else []
       | None \<Rightarrow> []) = []"
  proof (cases "find_entity (entities fr) (my_spaceship fr)")
    case None
    then show ?thesis by simp
  next
    case ship: (Some e)
    show ?thesis
    proof (cases "show_headings fr")
      case False
      with ship show ?thesis by simp
    next
      case True
      with ship show ?thesis
        by (cases "c_transform e") (simp_all add: no_upload_headings)
    qed
  qed
  have dust: "filter is_upload
      (case find_entity (entities fr) (my_spaceship fr) of
         Some e \<Rightarrow>
           if show_spacedust fr
           then fst (dust_pass (random ext) e (camera_position fr)
                       (static_space_dust fr) (rng_calls fr))
           else []
       | None \<Rightarrow> [])
      = (case find_entity (entities fr) (my_spaceship fr) of
           Some e \<Rightarrow>
             if show_spacedust fr
             then filter is_upload
                    (fst (dust_pass (random ext) e (camera_position fr)
                            (static_space_dust fr) (rng_calls fr)))
             else []
         | None \<Rightarrow> [])"
    by (cases "find_entity (entities fr) (my_spaceship fr)"; cases "show_spacedust fr") simp_all
  show ?thesis
    unfolding calls
    by (simp only: filter_append no_upload_frame_begin no_upload_starbox no_upload_emit_pass
        no_upload_reticle no_upload_overlay_state scene last_call overlays headings dust
        append_Nil append_Nil2)
qed

text \<open>
  C8. In a frame that is not skipped, the position range of the dust buffer is written if
  and only if the space-dust pass ran (dust switched on, a player ship) and its update
  loop respawned at least one pair. A pair \<open>m\<close> is respawned exactly when its first
  endpoint, as the frame found it, fails the shell test against the dust centre (earlier
  iterations of the loop write other indices only). When that happens the frame makes
  one upload, of the array as the loop left it, and the buffer holds that array
  afterwards; otherwise it makes none, and the buffer and the array are what they were.
\<close>

theorem dust_upload_iff_respawn:
  assumes "v2x (rect_size fr) \<noteq> 0" and "length (static_space_dust fr) = 2 * N"
  shows "(let calls = frame_calls ext fr;
              respawned =
                (show_spacedust fr
                 \<and> (case find_entity (entities fr) (my_spaceship fr) of
                       None \<Rightarrow> False
                     | Some ship \<Rightarrow>
                         \<exists>m<N. out_of_shell (dust_center ship (camera_position fr))
                                  (static_space_dust fr ! (2 * m))))
          in filter is_upload calls
               = (if respawned then [BufferSubData (static_space_dust (onDraw ext fr))] else [])
             \<and> gpu_positions calls buffer
                 = (if respawned then static_space_dust (onDraw ext fr) else buffer)
             \<and> (\<not> respawned \<longrightarrow> static_space_dust (onDraw ext fr) = static_space_dust fr))"
proof -
  let ?calls = "frame_calls ext fr"
  let ?ship = "find_entity (entities fr) (my_spaceship fr)"
  note up = frame_uploads [OF assms(1), of ext]
  note st = onDraw_state(3) [OF assms(1), of ext]
  have gpu: "gpu_positions ?calls buffer = gpu_positions (filter is_upload ?calls) buffer"
    by (rule gpu_positions_filter)
  show ?thesis
  proof (cases "show_spacedust fr \<and> ?ship \<noteq> None")
    case False
    then have "filter is_upload ?calls = []"
      and "static_space_dust (onDraw ext fr) = static_space_dust fr"
      using up st by (auto split: option.splits)
    with False gpu show ?thesis
      by (auto simp: Let_def gpu_positions_def split: option.splits)
  next
    case True
    then obtain ship where ship: "?ship = Some ship" and shown: "show_spacedust fr"
      by auto
    let ?pass = "dust_pass (random ext) ship (camera_position fr) (static_space_dust fr) (rng_calls fr)"
    let ?resp = "\<exists>m<N. out_of_shell (dust_center ship (camera_position fr))
                          (static_space_dust fr ! (2 * m))"
    from dust_pass_upload [OF assms(2), where rnd = "random ext" and ship = ship
        and cam = "camera_position fr" and calls = "rng_calls fr" and buffer = buffer]
    have pass: "filter is_upload (fst ?pass) = (if ?resp then [BufferSubData (fst (snd ?pass))] else [])"
      "\<not> ?resp \<longrightarrow> fst (snd ?pass) = static_space_dust fr"
      by (simp_all add: split_beta Let_def)
    have same: "filter is_upload ?calls = filter is_upload (fst ?pass)"
      "static_space_dust (onDraw ext fr) = fst (snd ?pass)"
      using up st by (simp_all add: ship shown)
    show ?thesis
    proof (cases ?resp)
      case True
      with pass same gpu show ?thesis
        by (simp add: Let_def ship shown gpu_positions_def)
    next
      case False
      with pass same gpu show ?thesis
        by (simp add: Let_def ship shown gpu_positions_def)
    qed
  qed
qed

theorem dust_upload_iff_respawn_witness:
  "v2x (rect_size ship_scene) \<noteq> 0
   \<and> length (static_space_dust ship_scene) = 2 * 1
   \<and> static_space_dust (onDraw (plain_library\<lparr>random := \<lambda>k. 300\<rparr>) ship_scene)
       = [Vec3 1300 2300 300, Vec3 1300 2300 300]
   \<and> filter is_upload (frame_calls (plain_library\<lparr>random := \<lambda>k. 300\<rparr>) ship_scene)
       = [BufferSubData [Vec3 1300 2300 300, Vec3 1300 2300 300]]
   \<and> gpu_positions (frame_calls (plain_library\<lparr>random := \<lambda>k. 300\<rparr>) ship_scene)
         [Vec3 0 0 0, Vec3 0 0 0]
       = [Vec3 1300 2300 300, Vec3 1300 2300 300]"
proof -
  let ?ext = "plain_library\<lparr>random := \<lambda>k. 300\<rparr>"
  let ?ship = "(bare_entity 7)\<lparr>c_transform :=
                       Some \<lparr>t_position = Vec2 1000 2000, t_rotation = 0\<rparr>\<rparr>"
  have width: "v2x (rect_size ship_scene) \<noteq> 0"
    and len: "length (static_space_dust ship_scene) = 2 * 1"
    and shown: "show_spacedust ship_scene"
    and dust: "static_space_dust ship_scene = [Vec3 0 0 0, Vec3 0 0 0]"
    and cam: "camera_position ship_scene = Vec3 0 0 0"
    and calls: "rng_calls ship_scene = 0"
    by (simp_all add: ship_scene_def empty_scene_def)
  have ship: "find_entity (entities ship_scene) (my_spaceship ship_scene) = Some ?ship"
    by (simp add: ship_scene_def empty_scene_def find_entity_def bare_entity_def)
  have center: "dust_center ?ship (Vec3 0 0 0) = Vec3 1000 2000 0"
    by (simp add: dust_center_def bare_entity_def)
  have rnd: "random ?ext = (\<lambda>k. 300)"
    by (simp add: plain_library_def)
  have run: "dust_update (\<lambda>k. 300) (Vec3 1000 2000 0) [Vec3 0 0 0, Vec3 0 0 0] 0
      = \<lparr>space_dust = [Vec3 1300 2300 300, Vec3 1300 2300 300], update_required = True,
         random_calls = 3\<rparr>"
    by (simp add: dust_update_def dust_loop.simps dust_step_def out_of_shell_def sub3_def add3_def
        length2_def maxDustDist_def minDustDist_def Let_def)
  have after: "static_space_dust (onDraw ?ext ship_scene) = [Vec3 1300 2300 300, Vec3 1300 2300 300]"
    by (simp add: onDraw_state(3) [OF width] ship shown dust cam calls rnd dust_pass_def center
        run Let_def)
  have resp: "\<exists>m<1. out_of_shell (dust_center ?ship (Vec3 0 0 0)) ([Vec3 0 0 0, Vec3 0 0 0] ! (2 * m))"
    by (simp add: center out_of_shell_def sub3_def length2_def minDustDist_def maxDustDist_def)
  show ?thesis
    using dust_upload_iff_respawn [OF width len, of ?ext "[Vec3 0 0 0, Vec3 0 0 0]"] resp
    by (simp add: Let_def ship shown dust cam after width)
qed

text \<open>
  C9. With a rectangle of zero width \<^verbatim>\<open>onDraw\<close> returns the state it was given:
  nothing is called, nothing is written. In every other state the frame runs from its
  first call, \<^verbatim>\<open>renderer.finish()\<close>, to its last, the \<^verbatim>\<open>glViewport\<close> that restores the
  full viewport: there is no other way out of the frame.
\<close>

theorem zero_width_skips_frame:
  "(v2x (rect_size fr) = 0 \<longrightarrow> onDraw ext fr = fr)
   \<and> (v2x (rect_size fr) \<noteq> 0 \<longrightarrow>
        (\<exists>evs. events (onDraw ext fr)
                 = events fr @ RendererFinish # evs @ [GlCall ''glViewport full'']))"
proof (cases "v2x (rect_size fr) = 0")
  case True
  then show ?thesis by (simp add: onDraw_def)
next
  case False
  then have "\<exists>evs. events (onDraw ext fr)
                 = events fr @ RendererFinish # evs @ [GlCall ''glViewport full'']"
    by (simp add: onDraw_def frame_begin_def Let_def split_beta)
  with False show ?thesis by simp
qed

theorem zero_width_skips_frame_witness:
  "v2x (rect_size (empty_scene (Vec2 0 600))) = 0
   \<and> onDraw plain_library (empty_scene (Vec2 0 600)) = empty_scene (Vec2 0 600)
   \<and> v2x (rect_size (empty_scene (Vec2 800 0))) \<noteq> 0
   \<and> hd (events (onDraw plain_library (empty_scene (Vec2 800 0)))) = RendererFinish
   \<and> last (events (onDraw plain_library (empty_scene (Vec2 800 0)))) = GlCall ''glViewport full''"
proof -
  have a: "v2x (rect_size (empty_scene (Vec2 0 600))) = 0"
    and b: "v2x (rect_size (empty_scene (Vec2 800 0))) \<noteq> 0"
    and c: "events (empty_scene (Vec2 800 0)) = []"
    by (simp_all add: empty_scene_def)
  from zero_width_skips_frame [of "empty_scene (Vec2 0 600)" plain_library] a
  have skip: "onDraw plain_library (empty_scene (Vec2 0 600)) = empty_scene (Vec2 0 600)"
    by simp
  from zero_width_skips_frame [of "empty_scene (Vec2 800 0)" plain_library] b c
  obtain evs where "events (onDraw plain_library (empty_scene (Vec2 800 0)))
      = RendererFinish # evs @ [GlCall ''glViewport full'']"
    by auto
  then have "hd (events (onDraw plain_library (empty_scene (Vec2 800 0)))) = RendererFinish"
    and "last (events (onDraw plain_library (empty_scene (Vec2 800 0)))) = GlCall ''glViewport full''"
    by simp_all
  with a b skip show ?thesis by simp
qed

end
